theory Spec2Isabelle
  imports Main "HOL-Library.AList"
begin

section \<open>Python values, dictionaries and exceptions\<close>

text \<open>
  The handlers of \<^verbatim>\<open>approval_api.py\<close> work on plain Python dictionaries
  (\<^verbatim>\<open>asdict(approval_request)\<close>, the manager's result, the JSON payload). A dictionary is
  an association list in insertion order; the values are the JSON-like Python values below.
\<close>

datatype pyval =
    PNone
  | PBool bool
  | PInt int
  | PStr string
  | PList "pyval list"
  | PDict "(string \<times> pyval) list"

type_synonym pydict = "(string \<times> pyval) list"

text \<open>The exceptions (all subclasses of Python's \<^verbatim>\<open>Exception\<close>) that the modelled code can raise.\<close>

datatype exn =
    AttributeError string
  | KeyError string
  | RequestError string

text \<open>Python truthiness, as tested by \<^verbatim>\<open>not x\<close>.\<close>

fun truthy :: "pyval \<Rightarrow> bool" where
  "truthy PNone = False"
| "truthy (PBool b) = b"
| "truthy (PInt i) = (i \<noteq> 0)"
| "truthy (PStr s) = (s \<noteq> [])"
| "truthy (PList xs) = (xs \<noteq> [])"
| "truthy (PDict kvs) = (kvs \<noteq> [])"

text \<open>\<^verbatim>\<open>d.get(k, default)\<close> on a dictionary.\<close>

definition dict_get :: "pydict \<Rightarrow> string \<Rightarrow> pyval \<Rightarrow> pyval" where
  "dict_get d k dflt = (case map_of d k of Some v \<Rightarrow> v | None \<Rightarrow> dflt)"

text \<open>
  \<^verbatim>\<open>x.get(k, default)\<close> on an arbitrary value: only a dictionary has the method, every
  other value raises \<^verbatim>\<open>AttributeError\<close>.
\<close>

fun py_get :: "pyval \<Rightarrow> string \<Rightarrow> pyval \<Rightarrow> exn + pyval" where
  "py_get (PDict kvs) k dflt = Inr (dict_get kvs k dflt)"
| "py_get _ k dflt = Inl (AttributeError ''get'')"

text \<open>\<^verbatim>\<open>d[k]\<close> on a dictionary raises \<^verbatim>\<open>KeyError\<close> on a missing key.\<close>

definition dict_item :: "pydict \<Rightarrow> string \<Rightarrow> exn + pyval" where
  "dict_item d k = (case map_of d k of Some v \<Rightarrow> Inr v | None \<Rightarrow> Inl (KeyError k))"

fun opt_str :: "string option \<Rightarrow> pyval" where
  "opt_str None = PNone"
| "opt_str (Some s) = PStr s"

section \<open>The approval request record and the ticket store\<close>

text \<open>
  Modelled from the spec: the dataclass \<^verbatim>\<open>ApprovalRequest\<close> of \<^verbatim>\<open>approval_manager.py\<close>,
  which is imported by \<^verbatim>\<open>approval_api.py\<close> but is not among the source files. The fields
  are those of the spec's data model; the handlers read \<^verbatim>\<open>ticket_id\<close>, \<^verbatim>\<open>claim_id\<close>,
  \<^verbatim>\<open>user_email\<close>, \<^verbatim>\<open>request_type\<close>, \<^verbatim>\<open>status\<close>, \<^verbatim>\<open>created_at\<close>, \<^verbatim>\<open>updated_at\<close>,
  \<^verbatim>\<open>function_call_id\<close> and \<^verbatim>\<open>metadata\<close>.
\<close>

record ApprovalRequest =
  ticket_id :: string
  claim_id :: string
  user_email :: string
  request_type :: string
  status :: string
  created_at :: string
  updated_at :: string
  function_call_id :: "string option"
  metadata :: pydict
  approver_notes :: "string option"
  rejection_reason :: "string option"

text \<open>\<^verbatim>\<open>dataclasses.asdict\<close>: the record as a dictionary, field by field.\<close>

definition asdict :: "ApprovalRequest \<Rightarrow> pydict" where
  "asdict r =
     [(''ticket_id'', PStr (ticket_id r)),
      (''claim_id'', PStr (claim_id r)),
      (''user_email'', PStr (user_email r)),
      (''request_type'', PStr (request_type r)),
      (''status'', PStr (status r)),
      (''created_at'', PStr (created_at r)),
      (''updated_at'', PStr (updated_at r)),
      (''function_call_id'', opt_str (function_call_id r)),
      (''metadata'', PDict (metadata r)),
      (''approver_notes'', opt_str (approver_notes r)),
      (''rejection_reason'', opt_str (rejection_reason r))]"

text \<open>
  The store is the manager's dictionary from ticket ID to record: an association list in
  insertion order. In a well-formed store the keys are distinct, as the keys of a
  dictionary are, and every record is stored under its own ticket ID.
\<close>

type_synonym approvals = "(string \<times> ApprovalRequest) list"

definition wf_store :: "approvals \<Rightarrow> bool" where
  "wf_store approvals =
     (distinct (map fst approvals) \<and> list_all (\<lambda>kr. ticket_id (snd kr) = fst kr) approvals)"

text \<open>
  Modelled from the spec: \<^verbatim>\<open>approval_manager.create\<close> (section 4.1), which is not among the
  source files. It allocates a new record in \<^verbatim>\<open>pending\<close> state under the generated ticket ID;
  the generated ID and the current time are inputs of the model.
\<close>

definition create ::
  "approvals \<Rightarrow> string \<Rightarrow> string \<Rightarrow> string \<Rightarrow> string \<Rightarrow> string \<Rightarrow> string option \<Rightarrow> pyval
     \<Rightarrow> string \<times> approvals" where
  "create approvals new_id now claim email rtype fcid session_info =
     (new_id,
      AList.update new_id
        \<lparr>ticket_id = new_id, claim_id = claim, user_email = email, request_type = rtype,
         status = ''pending'', created_at = now, updated_at = now,
         function_call_id = fcid, metadata = [(''session_info'', session_info)],
         approver_notes = None, rejection_reason = None\<rparr>
        approvals)"

text \<open>
  Modelled from the spec: \<^verbatim>\<open>approval_manager.get_approval\<close> (section 4.1,
  \<^verbatim>\<open>get(ticket_id) -> record | not-found\<close>), which is not among the source files.
\<close>

definition get_approval :: "approvals \<Rightarrow> string \<Rightarrow> ApprovalRequest option" where
  "get_approval approvals tid = map_of approvals tid"

text \<open>
  The two error results of a transition. The handlers test \<^verbatim>\<open>result["status"] == "error"\<close>
  and read \<^verbatim>\<open>result["message"]\<close>, so an error result carries these two keys.
\<close>

definition not_found_error :: "string \<Rightarrow> pydict" where
  "not_found_error tid =
     [(''status'', PStr ''error''), (''message'', PStr (''Ticket '' @ tid @ '' not found''))]"

definition already_terminal_error :: "string \<Rightarrow> string \<Rightarrow> pydict" where
  "already_terminal_error tid st =
     [(''status'', PStr ''error''),
      (''message'', PStr (''Ticket '' @ tid @ '' is already '' @ st))]"

text \<open>
  Modelled from the spec: \<^verbatim>\<open>approval_manager.approve\<close> (section 4.1,
  \<^verbatim>\<open>approve(ticket_id, notes) -> record | not-found-error | already-terminal-error\<close>: sets
  status to \<^verbatim>\<open>approved\<close>, stamps \<^verbatim>\<open>updated_at\<close>), which is not among the source files. A
  second transition attempt is rejected, not reapplied. The current time is an input.
\<close>

definition approve :: "approvals \<Rightarrow> string \<Rightarrow> string \<Rightarrow> string \<Rightarrow> pydict \<times> approvals" where
  "approve approvals tid notes now =
     (case get_approval approvals tid of
        None \<Rightarrow> (not_found_error tid, approvals)
      | Some r \<Rightarrow>
          if status r \<noteq> ''pending'' then (already_terminal_error tid (status r), approvals)
          else
            let r' = r\<lparr>status := ''approved'', updated_at := now, approver_notes := Some notes\<rparr>
            in (asdict r', AList.update tid r' approvals))"

text \<open>
  Modelled from the spec: \<^verbatim>\<open>approval_manager.reject\<close> (section 4.1,
  \<^verbatim>\<open>reject(ticket_id, reason) -> record | not-found-error | already-terminal-error\<close>: sets
  status to \<^verbatim>\<open>rejected\<close>), which is not among the source files.
\<close>

definition reject :: "approvals \<Rightarrow> string \<Rightarrow> string \<Rightarrow> string \<Rightarrow> pydict \<times> approvals" where
  "reject approvals tid reason now =
     (case get_approval approvals tid of
        None \<Rightarrow> (not_found_error tid, approvals)
      | Some r \<Rightarrow>
          if status r \<noteq> ''pending'' then (already_terminal_error tid (status r), approvals)
          else
            let r' = r\<lparr>status := ''rejected'', updated_at := now, rejection_reason := Some reason\<rparr>
            in (asdict r', AList.update tid r' approvals))"

text \<open>
  Modelled from the spec: \<^verbatim>\<open>approval_manager.get_all_pending\<close> (section 4.1,
  \<^verbatim>\<open>list_pending() -> sequence of records with status == pending\<close>), which is not among the
  source files.
\<close>

definition get_all_pending :: "approvals \<Rightarrow> ApprovalRequest list" where
  "get_all_pending approvals = filter (\<lambda>r. status r = ''pending'') (map snd approvals)"

section \<open>The resumption call: \<^verbatim>\<open>push_response_to_adk\<close>\<close>

text \<open>
  What the function does to the outside world is a trace of events: the lines it prints and
  the HTTP POST it sends. The printed texts are kept as constructors with their
  interpolated values.
\<close>

datatype log_line =
    MissingSessionInfo
  | Pushing string
  | SessionLine pyval pyval
  | FunctionCallIdLine pyval
  | StatusLine string
  | Resumed string
  | FailedToResume nat string
  | ErrorPushing exn

datatype event =
    Print log_line
  | Post string pyval

text \<open>
  The agent runtime is outside the program: what \<^verbatim>\<open>client.post(push_url, json=payload)\<close>
  gives back (a response with status code and text, or an exception such as a timeout or
  a refused connection) is an input of the model.
\<close>

datatype net_outcome =
    Response nat string
  | Raises exn

type_synonym net = "string \<Rightarrow> pyval \<Rightarrow> net_outcome"

text \<open>\<^verbatim>\<open>os.getenv("ADK_API_URL", "http://localhost:8000")\<close>; the environment variable is an input.\<close>

definition adk_api_url :: "string option \<Rightarrow> string" where
  "adk_api_url adk_env = (case adk_env of Some u \<Rightarrow> u | None \<Rightarrow> ''http://localhost:8000'')"

text \<open>The dictionary \<^verbatim>\<open>function_response\<close> (lines 56 to 62).\<close>

definition function_response :: "pydict \<Rightarrow> string \<Rightarrow> pyval" where
  "function_response approval_request approval_status =
     PDict
       [(''status'', PStr ''success''),
        (''approval_status'', PStr approval_status),
        (''ticket_id'', dict_get approval_request ''ticket_id'' PNone),
        (''claim_id'', dict_get approval_request ''claim_id'' PNone),
        (''message'', PStr (''Claim verification '' @ approval_status @ '' by user''))]"

text \<open>
  The body of the \<^verbatim>\<open>try\<close> block (lines 45 to 96). It returns \<open>Inl e\<close> where the Python raises
  \<open>e\<close>, together with the events that happened before.
\<close>

definition push_body :: "string option \<Rightarrow> net \<Rightarrow> pydict \<Rightarrow> string \<Rightarrow> (exn + bool) \<times> event list" where
  "push_body adk_env net approval_request approval_status =
     (case py_get (dict_get approval_request ''metadata'' (PDict [])) ''session_info'' (PDict []) of
        Inl e \<Rightarrow> (Inl e, [])
      | Inr session_info \<Rightarrow>
          let function_call_id = dict_get approval_request ''function_call_id'' PNone in
          if \<not> truthy function_call_id \<or> \<not> truthy session_info
          then (Inr False, [Print MissingSessionInfo])
          else
            let push_url = adk_api_url adk_env @ ''/run'' in
            (case py_get session_info ''app_name'' PNone of
               Inl e \<Rightarrow> (Inl e, [])
             | Inr app_name \<Rightarrow>
            (case py_get session_info ''user_id'' PNone of
               Inl e \<Rightarrow> (Inl e, [])
             | Inr user_id \<Rightarrow>
            (case py_get session_info ''session_id'' PNone of
               Inl e \<Rightarrow> (Inl e, [])
             | Inr session_id \<Rightarrow>
                 let payload =
                       PDict
                         [(''app_name'', app_name),
                          (''user_id'', user_id),
                          (''session_id'', session_id),
                          (''new_message'',
                             PDict
                               [(''role'', PStr ''function''),
                                (''parts'',
                                   PList
                                     [PDict
                                        [(''function_response'',
                                            PDict
                                              [(''name'', PStr ''request_claim_approval''),
                                               (''id'', function_call_id),
                                               (''response'',
                                                  function_response approval_request
                                                    approval_status)])]])])];
                     prints =
                       [Print (Pushing push_url),
                        Print (SessionLine user_id session_id),
                        Print (FunctionCallIdLine function_call_id),
                        Print (StatusLine approval_status)]
                 in
                 (case net push_url payload of
                    Raises e \<Rightarrow> (Inl e, prints @ [Post push_url payload])
                  | Response status_code txt \<Rightarrow>
                      if status_code = 200
                      then (Inr True,
                            prints @ [Post push_url payload, Print (Resumed approval_status)])
                      else (Inr False,
                            prints @ [Post push_url payload,
                                      Print (FailedToResume status_code txt)]))))))"

text \<open>
  The whole function: \<^verbatim>\<open>except Exception as e\<close> (lines 98 to 102) prints the error and
  returns \<^verbatim>\<open>False\<close>. The result is again a sum, so that an exception leaving the function
  would be visible as \<open>Inl\<close>.
\<close>

definition push_response_to_adk ::
  "string option \<Rightarrow> net \<Rightarrow> pydict \<Rightarrow> string \<Rightarrow> (exn + bool) \<times> event list" where
  "push_response_to_adk adk_env net approval_request approval_status =
     (case push_body adk_env net approval_request approval_status of
        (Inr b, tr) \<Rightarrow> (Inr b, tr)
      | (Inl e, tr) \<Rightarrow> (Inr False, tr @ [Print (ErrorPushing e)]))"

section \<open>The HTTP handlers\<close>

text \<open>
  The HTML confirmation pages differ in their title, heading and status line and
  interpolate the ticket ID and \<^verbatim>\<open>result.get('claim_id', 'N/A')\<close>; the page is kept as
  these five values. An exception that leaves a handler other than \<^verbatim>\<open>HTTPException\<close> is
  answered by the framework with an internal server error.
\<close>

record html_page =
  page_title :: string
  page_heading :: string
  page_ticket_id :: string
  page_claim_id :: pyval
  page_status :: string

datatype http_response =
    HTMLResponse html_page
  | JSONResponse pyval
  | HTTPException nat pyval
  | InternalServerError exn

text \<open>The answer a caller sees as success: one of the two confirmation pages.\<close>

fun is_confirmation :: "http_response \<Rightarrow> bool" where
  "is_confirmation (HTMLResponse page) = True"
| "is_confirmation (JSONResponse body) = False"
| "is_confirmation (HTTPException code detail) = False"
| "is_confirmation (InternalServerError e) = False"

text \<open>\<^verbatim>\<open>GET /api/approve/{ticket_id}\<close> (lines 119 to 198).\<close>

definition approve_request ::
  "string option \<Rightarrow> net \<Rightarrow> string \<Rightarrow> approvals \<Rightarrow> string
     \<Rightarrow> http_response \<times> approvals \<times> event list" where
  "approve_request adk_env net now approvals tid =
     (case get_approval approvals tid of
        None \<Rightarrow> (HTTPException 404 (PStr (''Ticket '' @ tid @ '' not found'')), approvals, [])
      | Some approval_request \<Rightarrow>
          let approval_dict = asdict approval_request;
              (result, approvals') = approve approvals tid ''Approved via email link'' now
          in
          (case dict_item result ''status'' of
             Inl e \<Rightarrow> (InternalServerError e, approvals', [])
           | Inr st \<Rightarrow>
               if st = PStr ''error'' then
                 (case dict_item result ''message'' of
                    Inl e \<Rightarrow> (InternalServerError e, approvals', [])
                  | Inr msg \<Rightarrow> (HTTPException 404 msg, approvals', []))
               else
                 (case push_response_to_adk adk_env net approval_dict ''approved'' of
                    (Inl e, tr) \<Rightarrow> (InternalServerError e, approvals', tr)
                  | (Inr pushed, tr) \<Rightarrow>
                      (HTMLResponse
                         \<lparr>page_title = ''Claim Approved'',
                          page_heading = ''Claim Approved Successfully'',
                          page_ticket_id = tid,
                          page_claim_id = dict_get result ''claim_id'' (PStr ''N/A''),
                          page_status = ''Approved''\<rparr>,
                       approvals', tr))))"

text \<open>\<^verbatim>\<open>GET /api/reject/{ticket_id}\<close> (lines 201 to 283).\<close>

definition reject_request ::
  "string option \<Rightarrow> net \<Rightarrow> string \<Rightarrow> approvals \<Rightarrow> string
     \<Rightarrow> http_response \<times> approvals \<times> event list" where
  "reject_request adk_env net now approvals tid =
     (case get_approval approvals tid of
        None \<Rightarrow> (HTTPException 404 (PStr (''Ticket '' @ tid @ '' not found'')), approvals, [])
      | Some approval_request \<Rightarrow>
          let approval_dict = asdict approval_request;
              (result, approvals') = reject approvals tid ''Rejected via email link'' now
          in
          (case dict_item result ''status'' of
             Inl e \<Rightarrow> (InternalServerError e, approvals', [])
           | Inr st \<Rightarrow>
               if st = PStr ''error'' then
                 (case dict_item result ''message'' of
                    Inl e \<Rightarrow> (InternalServerError e, approvals', [])
                  | Inr msg \<Rightarrow> (HTTPException 404 msg, approvals', []))
               else
                 (case push_response_to_adk adk_env net approval_dict ''rejected'' of
                    (Inl e, tr) \<Rightarrow> (InternalServerError e, approvals', tr)
                  | (Inr pushed, tr) \<Rightarrow>
                      (HTMLResponse
                         \<lparr>page_title = ''Claim Rejected'',
                          page_heading = ''Claim Submission Rejected'',
                          page_ticket_id = tid,
                          page_claim_id = dict_get result ''claim_id'' (PStr ''N/A''),
                          page_status = ''Rejected''\<rparr>,
                       approvals', tr))))"

text \<open>\<^verbatim>\<open>GET /api/status/{ticket_id}\<close> (lines 286 to 303).\<close>

definition get_status :: "approvals \<Rightarrow> string \<Rightarrow> http_response" where
  "get_status approvals tid =
     (case get_approval approvals tid of
        None \<Rightarrow> HTTPException 404 (PStr (''Ticket '' @ tid @ '' not found''))
      | Some request \<Rightarrow>
          JSONResponse
            (PDict
               [(''ticket_id'', PStr (ticket_id request)),
                (''claim_id'', PStr (claim_id request)),
                (''status'', PStr (status request)),
                (''request_type'', PStr (request_type request)),
                (''created_at'', PStr (created_at request)),
                (''updated_at'', PStr (updated_at request))]))"

text \<open>\<^verbatim>\<open>GET /api/pending\<close> (lines 306 to 324).\<close>

definition pending_entry :: "ApprovalRequest \<Rightarrow> pyval" where
  "pending_entry req =
     PDict
       [(''ticket_id'', PStr (ticket_id req)),
        (''claim_id'', PStr (claim_id req)),
        (''user_email'', PStr (user_email req)),
        (''request_type'', PStr (request_type req)),
        (''created_at'', PStr (created_at req))]"

definition get_pending_approvals :: "approvals \<Rightarrow> http_response" where
  "get_pending_approvals approvals =
     (let pending = get_all_pending approvals
      in JSONResponse
           (PDict
              [(''count'', PInt (int (length pending))),
               (''pending_approvals'', PList (map pending_entry pending))]))"

section \<open>The body of the outbound call as the spec words it\<close>

text \<open>
  Section 6 of the spec gives the body of \<^verbatim>\<open>POST {runtime_url}/run\<close> as
  \<^verbatim>\<open>{app_name, user_id, session_id, new_message: {role: "function", parts:
  [{function_response: {name, id, response}}]}}\<close>. This definition follows those words, to be
  compared with the payload that \<open>push_body\<close> builds.
\<close>

definition spec_run_payload ::
  "pyval \<Rightarrow> pyval \<Rightarrow> pyval \<Rightarrow> pyval \<Rightarrow> pyval \<Rightarrow> pyval \<Rightarrow> pyval" where
  "spec_run_payload app_name user_id session_id name ident response =
     PDict
       [(''app_name'', app_name),
        (''user_id'', user_id),
        (''session_id'', session_id),
        (''new_message'',
           PDict
             [(''role'', PStr ''function''),
              (''parts'',
                 PList
                   [PDict
                      [(''function_response'',
                          PDict
                            [(''name'', name), (''id'', ident), (''response'', response)])]])])]"

section \<open>Sequences of calls and requests\<close>

text \<open>
  Repeated transition calls on the store (a double click, a redelivered request): each call
  names its ticket, its note and the time at which it runs. The results are kept in order.
\<close>

datatype transition_call =
    ApproveCall string string string
  | RejectCall string string string

fun call_ticket :: "transition_call \<Rightarrow> string" where
  "call_ticket (ApproveCall tid notes now) = tid"
| "call_ticket (RejectCall tid reason now) = tid"

fun apply_call :: "approvals \<Rightarrow> transition_call \<Rightarrow> pydict \<times> approvals" where
  "apply_call approvals (ApproveCall tid notes now) = approve approvals tid notes now"
| "apply_call approvals (RejectCall tid reason now) = reject approvals tid reason now"

fun apply_calls :: "approvals \<Rightarrow> transition_call list \<Rightarrow> (transition_call \<times> pydict) list \<times> approvals" where
  "apply_calls approvals [] = ([], approvals)"
| "apply_calls approvals (c # cs) =
     (let (result, approvals') = apply_call approvals c;
          (results, approvals'') = apply_calls approvals' cs
      in ((c, result) # results, approvals''))"

definition is_error :: "pydict \<Rightarrow> bool" where
  "is_error result = (map_of result ''status'' = Some (PStr ''error''))"

text \<open>The successful transitions of one ticket among the results of a sequence of calls.\<close>

definition transitions_of :: "string \<Rightarrow> (transition_call \<times> pydict) list \<Rightarrow> (transition_call \<times> pydict) list" where
  "transitions_of tid results =
     filter (\<lambda>cr. call_ticket (fst cr) = tid \<and> \<not> is_error (snd cr)) results"

text \<open>A ticket that is in the store and still pending.\<close>

definition pending_at :: "approvals \<Rightarrow> string \<Rightarrow> bool" where
  "pending_at approvals tid =
     (case get_approval approvals tid of Some r \<Rightarrow> status r = ''pending'' | None \<Rightarrow> False)"

text \<open>
  The server answers approve and reject requests one after the other: a handler reads and
  updates the store before its only \<^verbatim>\<open>await\<close>, so the store changes of two requests never
  interleave. Each request carries the time at which it is handled; the answer and the
  events of each request are kept with it.
\<close>

datatype request =
    ApproveReq string
  | RejectReq string

fun req_ticket :: "request \<Rightarrow> string" where
  "req_ticket (ApproveReq tid) = tid"
| "req_ticket (RejectReq tid) = tid"

fun handle ::
  "string option \<Rightarrow> net \<Rightarrow> approvals \<Rightarrow> request \<times> string
     \<Rightarrow> http_response \<times> approvals \<times> event list" where
  "handle adk_env net approvals (ApproveReq tid, now) = approve_request adk_env net now approvals tid"
| "handle adk_env net approvals (RejectReq tid, now) = reject_request adk_env net now approvals tid"

fun serve ::
  "string option \<Rightarrow> net \<Rightarrow> approvals \<Rightarrow> (request \<times> string) list
     \<Rightarrow> (request \<times> http_response \<times> event list) list \<times> approvals" where
  "serve adk_env net approvals [] = ([], approvals)"
| "serve adk_env net approvals (rq # rqs) =
     (let (resp, approvals', tr) = handle adk_env net approvals rq;
          (answers, approvals'') = serve adk_env net approvals' rqs
      in ((fst rq, resp, tr) # answers, approvals''))"

fun is_post :: "event \<Rightarrow> bool" where
  "is_post (Post url payload) = True"
| "is_post (Print l) = False"

text \<open>The resumption calls sent while answering the requests for one ticket.\<close>

definition resumption_calls :: "string \<Rightarrow> (request \<times> http_response \<times> event list) list \<Rightarrow> event list" where
  "resumption_calls tid answers =
     concat (map (\<lambda>a. filter is_post (snd (snd a)))
               (filter (\<lambda>a. req_ticket (fst a) = tid) answers))"

text \<open>A record whose correlation data lets the resumption call go out.\<close>

definition has_correlation :: "ApprovalRequest \<Rightarrow> bool" where
  "has_correlation r =
     (case (function_call_id r, map_of (metadata r) ''session_info'') of
        (Some fcid, Some (PDict si)) \<Rightarrow> fcid \<noteq> [] \<and> si \<noteq> []
      | _ \<Rightarrow> False)"

section \<open>Sample data\<close>

definition runtime_ok :: net where
  "runtime_ok url payload = Response 200 ''OK''"

definition runtime_down :: net where
  "runtime_down url payload = Raises (RequestError ''connection refused'')"

definition runtime_busy :: net where
  "runtime_busy url payload = Response 503 ''busy''"

definition sample_session :: pyval where
  "sample_session =
     PDict [(''app_name'', PStr ''insurance_notification''),
            (''user_id'', PStr ''customer_001''),
            (''session_id'', PStr ''session_001'')]"

text \<open>A pending ticket with its correlation data, the same ticket once approved, and a
  pending ticket that was created without correlation data.\<close>

definition ticket_T1 :: ApprovalRequest where
  "ticket_T1 =
     \<lparr>ticket_id = ''T1'', claim_id = ''C1'', user_email = ''a@example.com'',
      request_type = ''claim_verification'', status = ''pending'',
      created_at = ''09:00'', updated_at = ''09:00'',
      function_call_id = Some ''fc-1'', metadata = [(''session_info'', sample_session)],
      approver_notes = None, rejection_reason = None\<rparr>"

definition ticket_T1_approved :: ApprovalRequest where
  "ticket_T1_approved =
     \<lparr>ticket_id = ''T1'', claim_id = ''C1'', user_email = ''a@example.com'',
      request_type = ''claim_verification'', status = ''approved'',
      created_at = ''09:00'', updated_at = ''09:05'',
      function_call_id = Some ''fc-1'', metadata = [(''session_info'', sample_session)],
      approver_notes = Some ''Approved via email link'', rejection_reason = None\<rparr>"

definition ticket_T2 :: ApprovalRequest where
  "ticket_T2 =
     \<lparr>ticket_id = ''T2'', claim_id = ''C2'', user_email = ''b@example.com'',
      request_type = ''claim_verification'', status = ''pending'',
      created_at = ''09:10'', updated_at = ''09:10'',
      function_call_id = None, metadata = [(''session_info'', PNone)],
      approver_notes = None, rejection_reason = None\<rparr>"

definition store_T1 :: approvals where
  "store_T1 = [(''T1'', ticket_T1)]"

definition store_T1_approved :: approvals where
  "store_T1_approved = [(''T1'', ticket_T1_approved)]"

definition store_T1_T2 :: approvals where
  "store_T1_T2 = [(''T1'', ticket_T1_approved), (''T2'', ticket_T2)]"

text \<open>A double click on the approve link with a reject in between.\<close>

definition sample_calls :: "transition_call list" where
  "sample_calls =
     [ApproveCall ''T1'' ''Approved via email link'' ''09:05'',
      RejectCall ''T1'' ''Rejected via email link'' ''09:06'',
      ApproveCall ''T1'' ''Approved via email link'' ''09:07'']"

text \<open>The approve link clicked twice, then the reject link, all for ticket \<^verbatim>\<open>T1\<close>.\<close>

definition sample_requests :: "(request \<times> string) list" where
  "sample_requests =
     [(ApproveReq ''T1'', ''09:05''), (ApproveReq ''T1'', ''09:06''), (RejectReq ''T1'', ''09:07'')]"

text \<open>The bodies of the resumption calls for ticket \<^verbatim>\<open>T1\<close>.\<close>

definition sample_payload :: "string \<Rightarrow> pyval" where
  "sample_payload approval_status =
     spec_run_payload (PStr ''insurance_notification'') (PStr ''customer_001'')
       (PStr ''session_001'') (PStr ''request_claim_approval'') (PStr ''fc-1'')
       (PDict
          [(''status'', PStr ''success''),
           (''approval_status'', PStr approval_status),
           (''ticket_id'', PStr ''T1''),
           (''claim_id'', PStr ''C1''),
           (''message'', PStr (''Claim verification '' @ approval_status @ '' by user''))])"

section \<open>Facts about the ticket store\<close>

lemma get_approval_update:
  "get_approval (AList.update k v approvals) tid = (if tid = k then Some v else get_approval approvals tid)"
  by (simp add: get_approval_def update_conv')

lemma is_error_asdict: "is_error (asdict r) = (status r = ''error'')"
  by (simp add: is_error_def asdict_def)

lemma is_error_errors [simp]:
  "is_error (not_found_error tid)" "is_error (already_terminal_error tid st)"
  by (simp_all add: is_error_def not_found_error_def already_terminal_error_def)

lemma approve_terminal:
  "get_approval approvals tid = Some r \<Longrightarrow> status r \<noteq> ''pending'' \<Longrightarrow>
   approve approvals tid notes now = (already_terminal_error tid (status r), approvals)"
  by (simp add: approve_def)

lemma reject_terminal:
  "get_approval approvals tid = Some r \<Longrightarrow> status r \<noteq> ''pending'' \<Longrightarrow>
   reject approvals tid reason now = (already_terminal_error tid (status r), approvals)"
  by (simp add: reject_def)

lemma approve_pending:
  "get_approval approvals tid = Some r \<Longrightarrow> status r = ''pending'' \<Longrightarrow>
   approve approvals tid notes now =
     (asdict (r\<lparr>status := ''approved'', updated_at := now, approver_notes := Some notes\<rparr>),
      AList.update tid (r\<lparr>status := ''approved'', updated_at := now, approver_notes := Some notes\<rparr>) approvals)"
  by (simp add: approve_def Let_def)

lemma reject_pending:
  "get_approval approvals tid = Some r \<Longrightarrow> status r = ''pending'' \<Longrightarrow>
   reject approvals tid reason now =
     (asdict (r\<lparr>status := ''rejected'', updated_at := now, rejection_reason := Some reason\<rparr>),
      AList.update tid (r\<lparr>status := ''rejected'', updated_at := now, rejection_reason := Some reason\<rparr>) approvals)"
  by (simp add: reject_def Let_def)

lemma approve_missing:
  "get_approval approvals tid = None \<Longrightarrow> approve approvals tid notes now = (not_found_error tid, approvals)"
  by (simp add: approve_def)

lemma reject_missing:
  "get_approval approvals tid = None \<Longrightarrow> reject approvals tid reason now = (not_found_error tid, approvals)"
  by (simp add: reject_def)

lemma apply_call_other:
  assumes "call_ticket c \<noteq> tid"
  shows "get_approval (snd (apply_call approvals c)) tid = get_approval approvals tid"
proof (cases c)
  case (ApproveCall t n w)
  then show ?thesis
    using assms
    by (cases "get_approval approvals t")
       (auto simp: approve_def Let_def get_approval_update)
next
  case (RejectCall t n w)
  then show ?thesis
    using assms
    by (cases "get_approval approvals t")
       (auto simp: reject_def Let_def get_approval_update)
qed

lemma apply_call_not_pending:
  assumes "\<not> pending_at approvals tid" "call_ticket c = tid"
  shows "apply_call approvals c = (fst (apply_call approvals c), approvals) \<and> is_error (fst (apply_call approvals c))"
proof (cases "get_approval approvals tid")
  case None
  then show ?thesis using assms by (cases c) (auto simp: approve_missing reject_missing)
next
  case (Some r)
  then have "status r \<noteq> ''pending''" using assms by (simp add: pending_at_def)
  then show ?thesis using Some assms by (cases c) (auto simp: approve_terminal reject_terminal)
qed

lemma apply_call_pending:
  assumes "get_approval approvals tid = Some r" "status r = ''pending''" "call_ticket c = tid"
  shows "\<not> is_error (fst (apply_call approvals c))
       \<and> (\<exists>r'. get_approval (snd (apply_call approvals c)) tid = Some r'
               \<and> (status r' = ''approved'' \<or> status r' = ''rejected''))"
  using assms
  by (cases c) (auto simp: approve_pending reject_pending get_approval_update is_error_asdict)

lemma pending_at_other:
  "call_ticket c \<noteq> tid \<Longrightarrow> pending_at (snd (apply_call approvals c)) tid = pending_at approvals tid"
  by (simp add: pending_at_def apply_call_other)

lemma apply_calls_Cons:
  "apply_calls approvals (c # cs) =
     ((c, fst (apply_call approvals c)) # fst (apply_calls (snd (apply_call approvals c)) cs),
      snd (apply_calls (snd (apply_call approvals c)) cs))"
  by (simp add: Let_def split: prod.splits)

lemma calls_not_pending:
  "\<not> pending_at approvals tid \<Longrightarrow>
   transitions_of tid (fst (apply_calls approvals calls)) = []
   \<and> get_approval (snd (apply_calls approvals calls)) tid = get_approval approvals tid"
proof (induction calls arbitrary: approvals)
  case Nil
  then show ?case by (simp add: transitions_of_def)
next
  case (Cons c cs)
  show ?case
  proof (cases "call_ticket c = tid")
    case True
    from apply_call_not_pending [OF Cons.prems True]
    have same: "snd (apply_call approvals c) = approvals" and err: "is_error (fst (apply_call approvals c))"
      by (metis snd_conv, simp)
    from Cons.IH [OF Cons.prems] show ?thesis
      using True err same by (simp add: apply_calls_Cons transitions_of_def del: apply_calls.simps)
  next
    case False
    then have np: "\<not> pending_at (snd (apply_call approvals c)) tid"
      using Cons.prems by (simp add: pending_at_other)
    from Cons.IH [OF np] show ?thesis
      using False by (simp add: apply_calls_Cons transitions_of_def apply_call_other del: apply_calls.simps)
  qed
qed

lemma calls_pending:
  "get_approval approvals tid = Some r \<Longrightarrow> status r = ''pending'' \<Longrightarrow>
   (get_approval (snd (apply_calls approvals calls)) tid = Some r
      \<and> transitions_of tid (fst (apply_calls approvals calls)) = [])
   \<or> ((\<exists>r'. get_approval (snd (apply_calls approvals calls)) tid = Some r'
              \<and> (status r' = ''approved'' \<or> status r' = ''rejected''))
      \<and> length (transitions_of tid (fst (apply_calls approvals calls))) = 1)"
proof (induction calls arbitrary: approvals)
  case Nil
  then show ?case by (simp add: transitions_of_def)
next
  case (Cons c cs)
  show ?case
  proof (cases "call_ticket c = tid")
    case True
    from apply_call_pending [OF Cons.prems True]
    obtain r' where ok: "\<not> is_error (fst (apply_call approvals c))"
      and r': "get_approval (snd (apply_call approvals c)) tid = Some r'"
      and st: "status r' = ''approved'' \<or> status r' = ''rejected''"
      by blast
    have np: "\<not> pending_at (snd (apply_call approvals c)) tid"
      using r' st by (auto simp: pending_at_def)
    from calls_not_pending [OF np, of cs] show ?thesis
      using True ok r' st by (simp add: apply_calls_Cons transitions_of_def del: apply_calls.simps)
  next
    case False
    have keep: "get_approval (snd (apply_call approvals c)) tid = Some r"
      using False Cons.prems by (simp add: apply_call_other)
    from Cons.IH [OF keep Cons.prems(2)] show ?thesis
      using False by (simp add: apply_calls_Cons transitions_of_def del: apply_calls.simps)
  qed
qed


lemma create_pending:
  "map_option status
     (get_approval (snd (create approvals new_id now claim email rtype fcid session_info)) new_id)
   = Some ''pending''"
  by (simp add: create_def get_approval_update)


lemma pending_card:
  "distinct (map fst al) \<Longrightarrow>
   card {k. \<exists>r. map_of al k = Some r \<and> P r} = length (filter P (map snd al))"
proof (induction al)
  case Nil
  then show ?case by simp
next
  case (Cons a al)
  obtain k v where a: "a = (k, v)" by (cases a)
  define S where "S = {k'. \<exists>r. map_of al k' = Some r \<and> P r}"
  have fin: "finite S"
    unfolding S_def by (rule finite_subset[of _ "dom (map_of al)"]) (auto simp: finite_dom_map_of)
  have knone: "map_of al k = None" using Cons.prems a by (simp add: map_of_eq_None_iff)
  have notin: "k \<notin> S" using knone by (simp add: S_def)
  have eq: "{k'. \<exists>r. map_of (a # al) k' = Some r \<and> P r} = (if P v then insert k S else S)"
    using knone a by (auto simp: S_def)
  have ih: "card S = length (filter P (map snd al))"
    unfolding S_def using Cons by simp
  have "card (if P v then insert k S else S) = length (filter P (map snd (a # al)))"
    using fin notin ih a by simp
  then show ?case by (simp only: eq)
qed

lemma pending_set:
  "distinct (map fst al) \<Longrightarrow>
   set (filter P (map snd al)) = {r. \<exists>k. map_of al k = Some r \<and> P r}"
  by (force simp: map_of_eq_Some_iff)

lemma wf_store_key:
  "wf_store approvals \<Longrightarrow> get_approval approvals tid = Some r \<Longrightarrow> ticket_id r = tid"
  by (auto simp: wf_store_def get_approval_def list_all_iff dest!: map_of_SomeD)

lemma wf_store_stored:
  "wf_store approvals \<Longrightarrow> r \<in> set (get_all_pending approvals) \<Longrightarrow>
   get_approval approvals (ticket_id r) = Some r"
  by (auto simp: wf_store_def get_approval_def get_all_pending_def list_all_iff)

text \<open>The store operations keep the store well-formed.\<close>

lemma wf_store_empty: "wf_store []"
  by (simp add: wf_store_def)

lemma set_alist_update:
  "set (AList.update k v al) \<subseteq> insert (k, v) (set al)"
  by (induction al) auto

lemma wf_store_update:
  assumes "wf_store approvals" and "ticket_id v = k"
  shows "wf_store (AList.update k v approvals)"
proof -
  have d: "distinct (map fst (AList.update k v approvals))"
    using assms(1) by (simp add: wf_store_def distinct_update)
  have "\<forall>kr \<in> set (AList.update k v approvals). ticket_id (snd kr) = fst kr"
  proof
    fix kr assume "kr \<in> set (AList.update k v approvals)"
    then have "kr \<in> insert (k, v) (set approvals)"
      using set_alist_update [of k v approvals] by blast
    then show "ticket_id (snd kr) = fst kr"
      using assms by (auto simp: wf_store_def list_all_iff)
  qed
  then show ?thesis using d by (simp add: wf_store_def list_all_iff)
qed

lemma wf_store_create:
  "wf_store approvals \<Longrightarrow>
   wf_store (snd (create approvals new_id now claim email rtype fcid session_info))"
  by (simp add: create_def wf_store_update)

lemma wf_store_approve:
  assumes "wf_store approvals"
  shows "wf_store (snd (approve approvals tid notes now))"
proof (cases "get_approval approvals tid")
  case None
  then show ?thesis using assms by (simp add: approve_missing)
next
  case (Some r)
  then show ?thesis
    using assms wf_store_key [OF assms Some]
    by (cases "status r = ''pending''")
       (simp_all add: approve_pending approve_terminal wf_store_update)
qed

lemma wf_store_reject:
  assumes "wf_store approvals"
  shows "wf_store (snd (reject approvals tid reason now))"
proof (cases "get_approval approvals tid")
  case None
  then show ?thesis using assms by (simp add: reject_missing)
next
  case (Some r)
  then show ?thesis
    using assms wf_store_key [OF assms Some]
    by (cases "status r = ''pending''")
       (simp_all add: reject_pending reject_terminal wf_store_update)
qed

section \<open>Facts about the resumption call and the handlers\<close>

lemma py_get_Inr: "py_get v k d = Inr x \<longleftrightarrow> (\<exists>kvs. v = PDict kvs \<and> x = dict_get kvs k d)"
  by (cases v) auto

lemma py_get_Inl: "py_get v k d = Inl e \<longleftrightarrow> ((\<forall>kvs. v \<noteq> PDict kvs) \<and> e = AttributeError ''get'')"
  by (cases v) auto

lemma asdict_get [simp]:
  "dict_get (asdict r) ''metadata'' dflt = PDict (metadata r)"
  "dict_get (asdict r) ''function_call_id'' dflt = opt_str (function_call_id r)"
  "dict_get (asdict r) ''ticket_id'' dflt = PStr (ticket_id r)"
  "dict_get (asdict r) ''claim_id'' dflt = PStr (claim_id r)"
  by (simp_all add: asdict_def dict_get_def)

lemma asdict_status [simp]: "dict_item (asdict r) ''status'' = Inr (PStr (status r))"
  by (simp add: asdict_def dict_item_def)

lemma error_items [simp]:
  "dict_item (not_found_error tid) ''status'' = Inr (PStr ''error'')"
  "dict_item (already_terminal_error tid st) ''status'' = Inr (PStr ''error'')"
  "dict_item (not_found_error tid) ''message'' = Inr (PStr (''Ticket '' @ tid @ '' not found''))"
  "dict_item (already_terminal_error tid st) ''message'' =
     Inr (PStr (''Ticket '' @ tid @ '' is already '' @ st))"
  by (simp_all add: dict_item_def not_found_error_def already_terminal_error_def)

lemma push_never_raises:
  "\<exists>b. fst (push_response_to_adk adk_env net d st) = Inr b"
  unfolding push_response_to_adk_def
  by (auto split: prod.splits sum.splits)

lemma push_shape:
  assumes "Post url payload \<in> set (snd (push_response_to_adk adk_env net d st))"
  shows "url = adk_api_url adk_env @ ''/run''
       \<and> truthy (dict_get d ''function_call_id'' PNone)
       \<and> (\<exists>si. py_get (dict_get d ''metadata'' (PDict [])) ''session_info'' (PDict []) = Inr (PDict si)
               \<and> si \<noteq> []
               \<and> payload =
                   spec_run_payload (dict_get si ''app_name'' PNone) (dict_get si ''user_id'' PNone)
                     (dict_get si ''session_id'' PNone) (PStr ''request_claim_approval'')
                     (dict_get d ''function_call_id'' PNone) (function_response d st))"
proof (cases "py_get (dict_get d ''metadata'' (PDict [])) ''session_info'' (PDict [])")
  case (Inl e)
  then show ?thesis using assms
    by (simp add: push_response_to_adk_def push_body_def)
next
  case (Inr session_info)
  show ?thesis
  proof (cases session_info)
    case (PDict si)
    then show ?thesis using assms Inr
      by (auto simp: push_response_to_adk_def push_body_def Let_def spec_run_payload_def
            split: if_splits net_outcome.splits)
  qed (use assms Inr in \<open>auto simp: push_response_to_adk_def push_body_def Let_def split: if_splits\<close>)
qed

lemma push_posts_le:
  "length (filter is_post (snd (push_response_to_adk adk_env net d st))) \<le> 1"
proof (cases "py_get (dict_get d ''metadata'' (PDict [])) ''session_info'' (PDict [])")
  case (Inl e)
  then show ?thesis by (simp add: push_response_to_adk_def push_body_def)
next
  case (Inr session_info)
  show ?thesis
  proof (cases session_info)
    case (PDict si)
    then show ?thesis using Inr
      by (auto simp: push_response_to_adk_def push_body_def Let_def
            split: if_splits net_outcome.splits)
  qed (use Inr in \<open>auto simp: push_response_to_adk_def push_body_def Let_def split: if_splits\<close>)
qed

lemma push_asdict_missing:
  assumes "\<not> truthy (opt_str (function_call_id r))
           \<or> \<not> truthy (dict_get (metadata r) ''session_info'' (PDict []))"
  shows "push_response_to_adk adk_env net (asdict r) st = (Inr False, [Print MissingSessionInfo])"
  using assms by (auto simp: push_response_to_adk_def push_body_def Let_def)

lemma push_asdict_post:
  assumes "has_correlation r"
  shows "length (filter is_post (snd (push_response_to_adk adk_env net (asdict r) st))) = 1"
proof -
  from assms obtain fcid si where c: "function_call_id r = Some fcid" "fcid \<noteq> []"
      "map_of (metadata r) ''session_info'' = Some (PDict si)" "si \<noteq> []"
    by (auto simp: has_correlation_def split: option.splits pyval.splits)
  have si: "dict_get (metadata r) ''session_info'' (PDict []) = PDict si"
    using c by (simp add: dict_get_def)
  show ?thesis using c(1,2,4)
    by (auto simp: push_response_to_adk_def push_body_def Let_def si
          split: net_outcome.splits)
qed

lemma approve_request_terminal:
  assumes "get_approval approvals tid = Some r" "status r \<noteq> ''pending''"
  shows "approve_request adk_env net now approvals tid =
           (HTTPException 404 (PStr (''Ticket '' @ tid @ '' is already '' @ status r)), approvals, [])"
  using assms by (simp add: approve_request_def approve_terminal)

lemma reject_request_terminal:
  assumes "get_approval approvals tid = Some r" "status r \<noteq> ''pending''"
  shows "reject_request adk_env net now approvals tid =
           (HTTPException 404 (PStr (''Ticket '' @ tid @ '' is already '' @ status r)), approvals, [])"
  using assms by (simp add: reject_request_def reject_terminal)

lemma approve_request_pending:
  assumes "get_approval approvals tid = Some r" "status r = ''pending''"
  shows "approve_request adk_env net now approvals tid =
           (HTMLResponse
              \<lparr>page_title = ''Claim Approved'', page_heading = ''Claim Approved Successfully'',
               page_ticket_id = tid, page_claim_id = PStr (claim_id r),
               page_status = ''Approved''\<rparr>,
            AList.update tid
              (r\<lparr>status := ''approved'', updated_at := now,
                 approver_notes := Some ''Approved via email link''\<rparr>) approvals,
            snd (push_response_to_adk adk_env net (asdict r) ''approved''))"
proof -
  obtain b where b: "fst (push_response_to_adk adk_env net (asdict r) ''approved'') = Inr b"
    using push_never_raises by blast
  then show ?thesis using assms
    by (cases "push_response_to_adk adk_env net (asdict r) ''approved''")
       (simp add: approve_request_def approve_pending)
qed

lemma reject_request_pending:
  assumes "get_approval approvals tid = Some r" "status r = ''pending''"
  shows "reject_request adk_env net now approvals tid =
           (HTMLResponse
              \<lparr>page_title = ''Claim Rejected'', page_heading = ''Claim Submission Rejected'',
               page_ticket_id = tid, page_claim_id = PStr (claim_id r),
               page_status = ''Rejected''\<rparr>,
            AList.update tid
              (r\<lparr>status := ''rejected'', updated_at := now,
                 rejection_reason := Some ''Rejected via email link''\<rparr>) approvals,
            snd (push_response_to_adk adk_env net (asdict r) ''rejected''))"
proof -
  obtain b where b: "fst (push_response_to_adk adk_env net (asdict r) ''rejected'') = Inr b"
    using push_never_raises by blast
  then show ?thesis using assms
    by (cases "push_response_to_adk adk_env net (asdict r) ''rejected''")
       (simp add: reject_request_def reject_pending)
qed

lemma push_last_event:
  assumes "Post url payload \<in> set (snd (push_response_to_adk adk_env net d st))"
  shows "last (snd (push_response_to_adk adk_env net d st)) =
           (case net url payload of
              Raises e \<Rightarrow> Print (ErrorPushing e)
            | Response code txt \<Rightarrow>
                if code = 200 then Print (Resumed st) else Print (FailedToResume code txt))
       \<and> filter is_post (snd (push_response_to_adk adk_env net d st)) = [Post url payload]"
proof (cases "py_get (dict_get d ''metadata'' (PDict [])) ''session_info'' (PDict [])")
  case (Inl e)
  then show ?thesis using assms
    by (simp add: push_response_to_adk_def push_body_def)
next
  case (Inr session_info)
  show ?thesis
  proof (cases session_info)
    case (PDict si)
    then show ?thesis using assms Inr
      by (auto simp: push_response_to_adk_def push_body_def Let_def
            split: if_splits net_outcome.splits)
  qed (use assms Inr in \<open>auto simp: push_response_to_adk_def push_body_def Let_def split: if_splits\<close>)
qed

lemma sample_push_trace:
  "snd (push_response_to_adk None net (asdict ticket_T1) st) =
     [Print (Pushing ''http://localhost:8000/run''),
      Print (SessionLine (PStr ''customer_001'') (PStr ''session_001'')),
      Print (FunctionCallIdLine (PStr ''fc-1'')),
      Print (StatusLine st),
      Post ''http://localhost:8000/run'' (sample_payload st)]
     @ (case net ''http://localhost:8000/run'' (sample_payload st) of
          Raises e \<Rightarrow> [Print (ErrorPushing e)]
        | Response code txt \<Rightarrow>
            if code = 200 then [Print (Resumed st)] else [Print (FailedToResume code txt)])"
  by (simp add: push_response_to_adk_def push_body_def ticket_T1_def sample_session_def
        dict_get_def [of "[_]"] dict_get_def [of "_ # _ # _ # []"] adk_api_url_def sample_payload_def spec_run_payload_def
        function_response_def Let_def
      split: net_outcome.splits)

lemma function_response_asdict:
  "function_response (asdict r) st =
     PDict
       [(''status'', PStr ''success''),
        (''approval_status'', PStr st),
        (''ticket_id'', PStr (ticket_id r)),
        (''claim_id'', PStr (claim_id r)),
        (''message'', PStr (''Claim verification '' @ st @ '' by user''))]"
  by (simp add: function_response_def)

lemma push_asdict_shape:
  assumes "Post url payload \<in> set (snd (push_response_to_adk adk_env net (asdict r) st))"
  shows "url = adk_api_url adk_env @ ''/run''
       \<and> (\<exists>si fcid.
             map_of (metadata r) ''session_info'' = Some (PDict si)
             \<and> function_call_id r = Some fcid
             \<and> payload =
                 spec_run_payload (dict_get si ''app_name'' PNone) (dict_get si ''user_id'' PNone)
                   (dict_get si ''session_id'' PNone) (PStr ''request_claim_approval'')
                   (PStr fcid)
                   (PDict
                      [(''status'', PStr ''success''),
                       (''approval_status'', PStr st),
                       (''ticket_id'', PStr (ticket_id r)),
                       (''claim_id'', PStr (claim_id r)),
                       (''message'', PStr (''Claim verification '' @ st @ '' by user''))]))"
proof -
  from push_shape [OF assms] obtain si where
    url: "url = adk_api_url adk_env @ ''/run''"
    and t: "truthy (opt_str (function_call_id r))"
    and si: "dict_get (metadata r) ''session_info'' (PDict []) = PDict si" "si \<noteq> []"
    and pl: "payload =
               spec_run_payload (dict_get si ''app_name'' PNone) (dict_get si ''user_id'' PNone)
                 (dict_get si ''session_id'' PNone) (PStr ''request_claim_approval'')
                 (opt_str (function_call_id r)) (function_response (asdict r) st)"
    by auto
  from t obtain fcid where f: "function_call_id r = Some fcid"
    by (cases "function_call_id r") auto
  from si have m: "map_of (metadata r) ''session_info'' = Some (PDict si)"
    by (auto simp: dict_get_def split: option.splits)
  show ?thesis using url f m pl by (simp add: function_response_asdict)
qed

lemma approve_request_trace:
  assumes "get_approval approvals tid = Some r"
  shows "snd (snd (approve_request adk_env net now approvals tid)) =
           (if status r = ''pending''
            then snd (push_response_to_adk adk_env net (asdict r) ''approved'') else [])"
  using approve_request_pending [OF assms] approve_request_terminal [OF assms] by simp

lemma reject_request_trace:
  assumes "get_approval approvals tid = Some r"
  shows "snd (snd (reject_request adk_env net now approvals tid)) =
           (if status r = ''pending''
            then snd (push_response_to_adk adk_env net (asdict r) ''rejected'') else [])"
  using reject_request_pending [OF assms] reject_request_terminal [OF assms] by simp

lemma handle_other:
  assumes "req_ticket q \<noteq> tid"
  shows "get_approval (fst (snd (handle adk_env net approvals (q, now)))) tid =
           get_approval approvals tid"
proof (cases "get_approval approvals (req_ticket q)")
  case None
  then show ?thesis
    by (cases q) (simp_all add: approve_request_def reject_request_def)
next
  case (Some r')
  show ?thesis
  proof (cases "status r' = ''pending''")
    case True
    then show ?thesis using Some assms
      by (cases q)
         (simp_all add: approve_request_pending reject_request_pending get_approval_update)
  next
    case False
    then show ?thesis using Some
      by (cases q) (simp_all add: approve_request_terminal reject_request_terminal)
  qed
qed

lemma handle_not_pending:
  assumes "\<not> pending_at approvals tid" and "req_ticket q = tid"
  shows "fst (snd (handle adk_env net approvals (q, now))) = approvals
       \<and> snd (snd (handle adk_env net approvals (q, now))) = []"
proof (cases "get_approval approvals tid")
  case None
  then show ?thesis using assms(2)
    by (cases q) (auto simp: approve_request_def reject_request_def)
next
  case (Some r)
  then have "status r \<noteq> ''pending''" using assms(1) by (simp add: pending_at_def)
  then show ?thesis using Some assms(2)
    by (cases q) (auto simp: approve_request_terminal reject_request_terminal)
qed

lemma handle_pending:
  assumes "get_approval approvals tid = Some r" and "status r = ''pending''"
    and "req_ticket q = tid"
  shows "\<not> pending_at (fst (snd (handle adk_env net approvals (q, now)))) tid
       \<and> length (filter is_post (snd (snd (handle adk_env net approvals (q, now))))) \<le> 1
       \<and> (has_correlation r \<longrightarrow>
            length (filter is_post (snd (snd (handle adk_env net approvals (q, now))))) = 1)"
proof -
  have le: "\<And>st. length (filter is_post (snd (push_response_to_adk adk_env net (asdict r) st)))
                  \<le> Suc 0"
    using push_posts_le by simp
  have one: "\<And>st. has_correlation r \<Longrightarrow>
      length (filter is_post (snd (push_response_to_adk adk_env net (asdict r) st))) = Suc 0"
    using push_asdict_post by simp
  show ?thesis
    using assms le one
    by (cases q)
       (auto simp: approve_request_pending reject_request_pending get_approval_update
          pending_at_def)
qed

lemma serve_Cons:
  "serve adk_env net approvals ((q, now) # rqs) =
     ((q, fst (handle adk_env net approvals (q, now)),
          snd (snd (handle adk_env net approvals (q, now))))
        # fst (serve adk_env net (fst (snd (handle adk_env net approvals (q, now)))) rqs),
      snd (serve adk_env net (fst (snd (handle adk_env net approvals (q, now)))) rqs))"
  by (simp add: Let_def split: prod.splits)

lemma resumption_calls_Cons:
  "resumption_calls tid ((q, resp, tr) # answers) =
     (if req_ticket q = tid then filter is_post tr else []) @ resumption_calls tid answers"
  by (simp add: resumption_calls_def)

lemma serve_not_pending:
  "\<not> pending_at approvals tid \<Longrightarrow>
   resumption_calls tid (fst (serve adk_env net approvals rqs)) = []"
proof (induction rqs arbitrary: approvals)
  case Nil
  then show ?case by (simp add: resumption_calls_def)
next
  case (Cons rq rqs)
  obtain q now where rq: "rq = (q, now)" by (cases rq)
  show ?case
  proof (cases "req_ticket q = tid")
    case True
    from handle_not_pending [OF Cons.prems True, of adk_env net now]
    have same: "fst (snd (handle adk_env net approvals (q, now))) = approvals"
      and quiet: "snd (snd (handle adk_env net approvals (q, now))) = []"
      by simp_all
    from Cons.IH [OF Cons.prems] show ?thesis
      by (simp add: rq serve_Cons resumption_calls_Cons same quiet del: serve.simps)
  next
    case False
    have "\<not> pending_at (fst (snd (handle adk_env net approvals (q, now)))) tid"
      using Cons.prems by (simp add: pending_at_def handle_other [OF False])
    from Cons.IH [OF this] show ?thesis
      using False by (simp add: rq serve_Cons resumption_calls_Cons del: serve.simps)
  qed
qed

lemma serve_pending:
  "get_approval approvals tid = Some r \<Longrightarrow> status r = ''pending'' \<Longrightarrow>
   length (resumption_calls tid (fst (serve adk_env net approvals rqs))) \<le> 1
   \<and> (has_correlation r \<and> tid \<in> req_ticket ` fst ` set rqs \<longrightarrow>
        length (resumption_calls tid (fst (serve adk_env net approvals rqs))) = 1)"
proof (induction rqs arbitrary: approvals)
  case Nil
  then show ?case by (simp add: resumption_calls_def)
next
  case (Cons rq rqs)
  obtain q now where rq: "rq = (q, now)" by (cases rq)
  show ?case
  proof (cases "req_ticket q = tid")
    case True
    from handle_pending [OF Cons.prems True, of adk_env net now]
    have np: "\<not> pending_at (fst (snd (handle adk_env net approvals (q, now)))) tid"
      and le: "length (filter is_post (snd (snd (handle adk_env net approvals (q, now))))) \<le> 1"
      and one: "has_correlation r \<longrightarrow>
            length (filter is_post (snd (snd (handle adk_env net approvals (q, now))))) = 1"
      by simp_all
    from serve_not_pending [OF np, of adk_env net rqs] le one show ?thesis
      using True by (simp add: rq serve_Cons resumption_calls_Cons del: serve.simps)
  next
    case False
    have keep: "get_approval (fst (snd (handle adk_env net approvals (q, now)))) tid = Some r"
      using Cons.prems by (simp add: handle_other [OF False])
    from Cons.IH [OF keep Cons.prems(2)] show ?thesis
      using False by (auto simp add: rq serve_Cons resumption_calls_Cons simp del: serve.simps)
  qed
qed

lemma approve_error_not_pending:
  "is_error (fst (approve approvals tid notes now)) \<Longrightarrow> \<not> pending_at approvals tid"
  by (auto simp: pending_at_def approve_pending is_error_asdict split: option.splits)

lemma reject_error_not_pending:
  "is_error (fst (reject approvals tid reason now)) \<Longrightarrow> \<not> pending_at approvals tid"
  by (auto simp: pending_at_def reject_pending is_error_asdict split: option.splits)

lemma push_result_inputs:
  "fst (push_response_to_adk adk_env net d st) =
     Inr (\<exists>md si txt.
            dict_get d ''metadata'' (PDict []) = PDict md
          \<and> dict_get md ''session_info'' (PDict []) = PDict si \<and> si \<noteq> []
          \<and> truthy (dict_get d ''function_call_id'' PNone)
          \<and> net (adk_api_url adk_env @ ''/run'')
                (spec_run_payload (dict_get si ''app_name'' PNone) (dict_get si ''user_id'' PNone)
                   (dict_get si ''session_id'' PNone) (PStr ''request_claim_approval'')
                   (dict_get d ''function_call_id'' PNone) (function_response d st))
              = Response 200 txt)"
proof (cases "py_get (dict_get d ''metadata'' (PDict [])) ''session_info'' (PDict [])")
  case (Inl e)
  then have "\<forall>md. dict_get d ''metadata'' (PDict []) \<noteq> PDict md"
    by (simp add: py_get_Inl)
  then show ?thesis using Inl
    by (simp add: push_response_to_adk_def push_body_def)
next
  case (Inr session_info)
  then obtain md where md: "dict_get d ''metadata'' (PDict []) = PDict md"
    and s: "session_info = dict_get md ''session_info'' (PDict [])"
    by (auto simp: py_get_Inr)
  show ?thesis
  proof (cases session_info)
    case (PDict si)
    then show ?thesis using Inr md s
      by (auto simp: push_response_to_adk_def push_body_def Let_def spec_run_payload_def
            split: net_outcome.splits)
  qed (use Inr md s in \<open>auto simp: push_response_to_adk_def push_body_def Let_def\<close>)
qed


lemma push_result_trace:
  "fst (push_response_to_adk adk_env net d st) =
     Inr (\<exists>url payload txt.
            Post url payload \<in> set (snd (push_response_to_adk adk_env net d st))
            \<and> net url payload = Response 200 txt)"
  unfolding push_response_to_adk_def push_body_def
  by (auto simp: Let_def split: sum.splits net_outcome.splits prod.splits)

section \<open>Unknown tickets\<close>

text \<open>
  C4. For a ticket ID that the store does not know, the approve, the reject and the status
  endpoint each answer HTTP 404 with the message \<^verbatim>\<open>Ticket <id> not found\<close>; the approve and
  reject handlers leave the store exactly as it was and cause no event, so no record is
  created by the failed lookup.
\<close>

theorem unknown_ticket_not_found:
  assumes "get_approval approvals tid = None"
  shows "approve_request adk_env net now approvals tid =
           (HTTPException 404 (PStr (''Ticket '' @ tid @ '' not found'')), approvals, [])
       \<and> reject_request adk_env net now approvals tid =
           (HTTPException 404 (PStr (''Ticket '' @ tid @ '' not found'')), approvals, [])
       \<and> get_status approvals tid =
           HTTPException 404 (PStr (''Ticket '' @ tid @ '' not found''))"
  using assms by (simp add: approve_request_def reject_request_def get_status_def)

theorem unknown_ticket_not_found_witness:
  "get_approval store_T1 ''T-missing'' = None
   \<and> approve_request None runtime_ok ''09:20'' store_T1 ''T-missing'' =
       (HTTPException 404 (PStr ''Ticket T-missing not found''), store_T1, [])
   \<and> reject_request None runtime_ok ''09:20'' store_T1 ''T-missing'' =
       (HTTPException 404 (PStr ''Ticket T-missing not found''), store_T1, [])
   \<and> get_status store_T1 ''T-missing'' =
       HTTPException 404 (PStr ''Ticket T-missing not found'')"
proof -
  have missing: "get_approval store_T1 ''T-missing'' = None"
    by (simp add: store_T1_def get_approval_def)
  show ?thesis
    using missing unknown_ticket_not_found [OF missing, of None runtime_ok "''09:20''"]
    by simp
qed

section \<open>The result of the resumption call\<close>

text \<open>
  C10. \<open>push_response_to_adk\<close> always returns a Boolean to its caller, never an exception.
  The Boolean is \<open>True\<close> exactly when the request carries a truthy \<^verbatim>\<open>function_call_id\<close>
  and, in its metadata, a non-empty dictionary \<^verbatim>\<open>session_info\<close>, and the agent runtime
  answers the POST of the payload to \<^verbatim>\<open>{ADK_API_URL}/run\<close> with status 200. So a missing
  \<^verbatim>\<open>function_call_id\<close>, a missing \<^verbatim>\<open>session_info\<close>, and a runtime that gives another
  status code or raises an exception each give \<open>False\<close>. In terms of what the function did:
  the result is \<open>True\<close> exactly when a POST was sent and answered with status 200.
\<close>

theorem push_response_to_adk_result:
  "fst (push_response_to_adk adk_env net approval_request approval_status) =
     Inr (\<exists>md si txt.
            dict_get approval_request ''metadata'' (PDict []) = PDict md
          \<and> dict_get md ''session_info'' (PDict []) = PDict si \<and> si \<noteq> []
          \<and> truthy (dict_get approval_request ''function_call_id'' PNone)
          \<and> net (adk_api_url adk_env @ ''/run'')
                (spec_run_payload (dict_get si ''app_name'' PNone) (dict_get si ''user_id'' PNone)
                   (dict_get si ''session_id'' PNone) (PStr ''request_claim_approval'')
                   (dict_get approval_request ''function_call_id'' PNone)
                   (function_response approval_request approval_status))
              = Response 200 txt)
   \<and> (\<not> truthy (dict_get approval_request ''function_call_id'' PNone) \<longrightarrow>
        fst (push_response_to_adk adk_env net approval_request approval_status) = Inr False)
   \<and> ((\<forall>md. dict_get approval_request ''metadata'' (PDict []) = PDict md \<longrightarrow>
             \<not> truthy (dict_get md ''session_info'' (PDict []))) \<longrightarrow>
        fst (push_response_to_adk adk_env net approval_request approval_status) = Inr False)
   \<and> ((\<forall>payload txt. net (adk_api_url adk_env @ ''/run'') payload \<noteq> Response 200 txt) \<longrightarrow>
        fst (push_response_to_adk adk_env net approval_request approval_status) = Inr False)
   \<and> fst (push_response_to_adk adk_env net approval_request approval_status) =
       Inr (\<exists>url payload txt.
              Post url payload
                \<in> set (snd (push_response_to_adk adk_env net approval_request approval_status))
              \<and> net url payload = Response 200 txt)"
proof (intro conjI impI)
  note inputs = push_result_inputs [of adk_env net approval_request approval_status]
  show "fst (push_response_to_adk adk_env net approval_request approval_status) =
     Inr (\<exists>md si txt.
            dict_get approval_request ''metadata'' (PDict []) = PDict md
          \<and> dict_get md ''session_info'' (PDict []) = PDict si \<and> si \<noteq> []
          \<and> truthy (dict_get approval_request ''function_call_id'' PNone)
          \<and> net (adk_api_url adk_env @ ''/run'')
                (spec_run_payload (dict_get si ''app_name'' PNone) (dict_get si ''user_id'' PNone)
                   (dict_get si ''session_id'' PNone) (PStr ''request_claim_approval'')
                   (dict_get approval_request ''function_call_id'' PNone)
                   (function_response approval_request approval_status))
              = Response 200 txt)"
    by (rule inputs)
  show "fst (push_response_to_adk adk_env net approval_request approval_status) =
       Inr (\<exists>url payload txt.
              Post url payload
                \<in> set (snd (push_response_to_adk adk_env net approval_request approval_status))
              \<and> net url payload = Response 200 txt)"
    by (rule push_result_trace)
  {
    assume "\<not> truthy (dict_get approval_request ''function_call_id'' PNone)"
    then show "fst (push_response_to_adk adk_env net approval_request approval_status) = Inr False"
      by (simp add: inputs)
  }
  {
    assume a: "\<forall>md. dict_get approval_request ''metadata'' (PDict []) = PDict md \<longrightarrow>
             \<not> truthy (dict_get md ''session_info'' (PDict []))"
    have "\<not> (\<exists>md si. dict_get approval_request ''metadata'' (PDict []) = PDict md
          \<and> dict_get md ''session_info'' (PDict []) = PDict si \<and> si \<noteq> [])"
    proof
      assume "\<exists>md si. dict_get approval_request ''metadata'' (PDict []) = PDict md
          \<and> dict_get md ''session_info'' (PDict []) = PDict si \<and> si \<noteq> []"
      then obtain md si where "dict_get approval_request ''metadata'' (PDict []) = PDict md"
        "dict_get md ''session_info'' (PDict []) = PDict si" "si \<noteq> []" by blast
      with a show False by auto
    qed
    then show "fst (push_response_to_adk adk_env net approval_request approval_status) = Inr False"
      by (simp add: inputs)
  }
  {
    assume "\<forall>payload txt. net (adk_api_url adk_env @ ''/run'') payload \<noteq> Response 200 txt"
    then show "fst (push_response_to_adk adk_env net approval_request approval_status) = Inr False"
      by (simp add: inputs)
  }
qed

theorem push_response_to_adk_result_witness:
  "fst (push_response_to_adk None runtime_ok (asdict ticket_T1) ''approved'') = Inr True
   \<and> fst (push_response_to_adk None runtime_busy (asdict ticket_T1) ''approved'') = Inr False
   \<and> fst (push_response_to_adk None runtime_down (asdict ticket_T1) ''rejected'') = Inr False
   \<and> \<not> truthy (dict_get (asdict ticket_T2) ''function_call_id'' PNone)
   \<and> fst (push_response_to_adk None runtime_ok (asdict ticket_T2) ''approved'') = Inr False
   \<and> fst (push_response_to_adk None runtime_ok [] ''approved'') = Inr False"
proof -
  have sent:
    "\<exists>md si txt.
        dict_get (asdict ticket_T1) ''metadata'' (PDict []) = PDict md
      \<and> dict_get md ''session_info'' (PDict []) = PDict si \<and> si \<noteq> []
      \<and> truthy (dict_get (asdict ticket_T1) ''function_call_id'' PNone)
      \<and> runtime_ok (adk_api_url None @ ''/run'')
            (spec_run_payload (dict_get si ''app_name'' PNone) (dict_get si ''user_id'' PNone)
               (dict_get si ''session_id'' PNone) (PStr ''request_claim_approval'')
               (dict_get (asdict ticket_T1) ''function_call_id'' PNone)
               (function_response (asdict ticket_T1) ''approved''))
          = Response 200 txt"
    by (intro exI [of _ "[(''session_info'', sample_session)]"]
          exI [of _ "[(''app_name'', PStr ''insurance_notification''),
                      (''user_id'', PStr ''customer_001''),
                      (''session_id'', PStr ''session_001'')]"]
          exI [of _ "''OK''"])
       (simp add: ticket_T1_def sample_session_def runtime_ok_def dict_get_def [of "[_]"])
  have ok: "fst (push_response_to_adk None runtime_ok (asdict ticket_T1) ''approved'') = Inr True"
    using push_response_to_adk_result
            [of None runtime_ok "asdict ticket_T1" "''approved''", THEN conjunct1] sent
    by (simp only: )
  have busy: "\<forall>payload txt. runtime_busy (adk_api_url None @ ''/run'') payload \<noteq> Response 200 txt"
    by (simp add: runtime_busy_def)
  have down: "\<forall>payload txt. runtime_down (adk_api_url None @ ''/run'') payload \<noteq> Response 200 txt"
    by (simp add: runtime_down_def)
  note b = push_response_to_adk_result
             [of None runtime_busy "asdict ticket_T1" "''approved''", THEN conjunct2,
              THEN conjunct2, THEN conjunct2, THEN conjunct1, THEN mp, OF busy]
  note d = push_response_to_adk_result
             [of None runtime_down "asdict ticket_T1" "''rejected''", THEN conjunct2,
              THEN conjunct2, THEN conjunct2, THEN conjunct1, THEN mp, OF down]
  have nf: "\<not> truthy (dict_get (asdict ticket_T2) ''function_call_id'' PNone)"
    by (simp add: ticket_T2_def)
  note m = push_response_to_adk_result
             [of None runtime_ok "asdict ticket_T2" "''approved''", THEN conjunct2,
              THEN conjunct1, THEN mp, OF nf]
  have ne: "\<not> truthy (dict_get [] ''function_call_id'' PNone)"
    by (simp add: dict_get_def)
  note e = push_response_to_adk_result
             [of None runtime_ok "[]" "''approved''", THEN conjunct2,
              THEN conjunct1, THEN mp, OF ne]
  show ?thesis using ok b d nf m e by (intro conjI)
qed

section \<open>The life cycle of a ticket\<close>

text \<open>
  C3. A created ticket starts in status \<^verbatim>\<open>pending\<close>. Under any sequence of approve and
  reject calls a pending ticket either stays as it is, with no successful transition, or it
  ends in \<^verbatim>\<open>approved\<close> or \<^verbatim>\<open>rejected\<close> after exactly one successful transition; a
  ticket that has left \<^verbatim>\<open>pending\<close> keeps its whole record (so its status and its
  \<^verbatim>\<open>updated_at\<close>) under every further approve or reject call, and each such call is
  refused. So no ticket has more than one successful transition.
\<close>

theorem ticket_lifecycle:
  "map_option status
     (get_approval (snd (create approvals new_id now claim email rtype fcid session_info)) new_id)
     = Some ''pending''
   \<and> (\<forall>r. get_approval approvals tid = Some r \<and> status r = ''pending'' \<longrightarrow>
         (get_approval (snd (apply_calls approvals calls)) tid = Some r
            \<and> transitions_of tid (fst (apply_calls approvals calls)) = [])
         \<or> ((\<exists>r'. get_approval (snd (apply_calls approvals calls)) tid = Some r'
                    \<and> (status r' = ''approved'' \<or> status r' = ''rejected''))
            \<and> length (transitions_of tid (fst (apply_calls approvals calls))) = 1))
   \<and> (\<forall>r. get_approval approvals tid = Some r \<and> status r \<noteq> ''pending'' \<longrightarrow>
         get_approval (snd (apply_calls approvals calls)) tid = Some r
         \<and> transitions_of tid (fst (apply_calls approvals calls)) = [])
   \<and> length (transitions_of tid (fst (apply_calls approvals calls))) \<le> 1"
proof (intro conjI allI impI)
  show "map_option status
     (get_approval (snd (create approvals new_id now claim email rtype fcid session_info)) new_id)
     = Some ''pending''"
    by (rule create_pending)
next
  fix r assume "get_approval approvals tid = Some r \<and> status r = ''pending''"
  then show "(get_approval (snd (apply_calls approvals calls)) tid = Some r
            \<and> transitions_of tid (fst (apply_calls approvals calls)) = [])
         \<or> ((\<exists>r'. get_approval (snd (apply_calls approvals calls)) tid = Some r'
                    \<and> (status r' = ''approved'' \<or> status r' = ''rejected''))
            \<and> length (transitions_of tid (fst (apply_calls approvals calls))) = 1)"
    using calls_pending [of approvals tid r calls] by blast
next
  fix r assume a: "get_approval approvals tid = Some r \<and> status r \<noteq> ''pending''"
  then have np: "\<not> pending_at approvals tid" by (simp add: pending_at_def)
  from calls_not_pending [OF np, of calls] a
  show "get_approval (snd (apply_calls approvals calls)) tid = Some r" by simp
  from calls_not_pending [OF np, of calls]
  show "transitions_of tid (fst (apply_calls approvals calls)) = []" by simp
next
  show "length (transitions_of tid (fst (apply_calls approvals calls))) \<le> 1"
  proof (cases "pending_at approvals tid")
    case True
    then obtain r where "get_approval approvals tid = Some r" "status r = ''pending''"
      by (auto simp: pending_at_def split: option.splits)
    from calls_pending [OF this, of calls] show ?thesis by auto
  next
    case False
    from calls_not_pending [OF False, of calls] show ?thesis by simp
  qed
qed

lemma sample_run:
  "apply_calls store_T1 sample_calls =
     ([(ApproveCall ''T1'' ''Approved via email link'' ''09:05'', asdict ticket_T1_approved),
       (RejectCall ''T1'' ''Rejected via email link'' ''09:06'', already_terminal_error ''T1'' ''approved''),
       (ApproveCall ''T1'' ''Approved via email link'' ''09:07'', already_terminal_error ''T1'' ''approved'')],
      store_T1_approved)"
  by (simp add: sample_calls_def store_T1_def store_T1_approved_def ticket_T1_def
        ticket_T1_approved_def approve_def reject_def get_approval_def Let_def)

theorem ticket_lifecycle_witness:
  "get_approval store_T1 ''T1'' = Some ticket_T1 \<and> status ticket_T1 = ''pending''
   \<and> get_approval (snd (apply_calls store_T1 sample_calls)) ''T1'' = Some ticket_T1_approved
   \<and> length (transitions_of ''T1'' (fst (apply_calls store_T1 sample_calls))) = 1
   \<and> get_approval store_T1_approved ''T1'' = Some ticket_T1_approved
   \<and> status ticket_T1_approved \<noteq> ''pending''
   \<and> get_approval (snd (apply_calls store_T1_approved sample_calls)) ''T1'' = Some ticket_T1_approved
   \<and> transitions_of ''T1'' (fst (apply_calls store_T1_approved sample_calls)) = []"
proof -
  have p: "get_approval store_T1 ''T1'' = Some ticket_T1 \<and> status ticket_T1 = ''pending''"
    by (simp add: store_T1_def get_approval_def ticket_T1_def)
  have t: "get_approval store_T1_approved ''T1'' = Some ticket_T1_approved
           \<and> status ticket_T1_approved \<noteq> ''pending''"
    by (simp add: store_T1_approved_def get_approval_def ticket_T1_approved_def)
  have changed: "get_approval (snd (apply_calls store_T1 sample_calls)) ''T1'' = Some ticket_T1_approved"
    by (simp add: sample_run) (simp add: store_T1_approved_def get_approval_def)
  have ne: "ticket_T1_approved \<noteq> ticket_T1"
    by (simp add: ticket_T1_approved_def ticket_T1_def)
  from ticket_lifecycle [where approvals = store_T1 and tid = "''T1''" and calls = sample_calls] p
  have "(get_approval (snd (apply_calls store_T1 sample_calls)) ''T1'' = Some ticket_T1
            \<and> transitions_of ''T1'' (fst (apply_calls store_T1 sample_calls)) = [])
         \<or> ((\<exists>r'. get_approval (snd (apply_calls store_T1 sample_calls)) ''T1'' = Some r'
                    \<and> (status r' = ''approved'' \<or> status r' = ''rejected''))
            \<and> length (transitions_of ''T1'' (fst (apply_calls store_T1 sample_calls))) = 1)"
    by blast
  with changed ne have once: "length (transitions_of ''T1'' (fst (apply_calls store_T1 sample_calls))) = 1"
    by auto
  from ticket_lifecycle [where approvals = store_T1_approved and tid = "''T1''" and calls = sample_calls] t
  have kept: "get_approval (snd (apply_calls store_T1_approved sample_calls)) ''T1'' = Some ticket_T1_approved
         \<and> transitions_of ''T1'' (fst (apply_calls store_T1_approved sample_calls)) = []"
    by blast
  show ?thesis using p t changed once kept by (intro conjI) simp_all
qed

section \<open>The status endpoint\<close>

text \<open>
  C8. For a ticket in the store, \<^verbatim>\<open>GET /api/status/{ticket_id}\<close> answers with a JSON
  object whose keys are exactly \<^verbatim>\<open>ticket_id\<close>, \<^verbatim>\<open>claim_id\<close>, \<^verbatim>\<open>status\<close>,
  \<^verbatim>\<open>request_type\<close>, \<^verbatim>\<open>created_at\<close> and \<^verbatim>\<open>updated_at\<close>, each holding that field of the
  ticket's record; for an unknown ticket it answers HTTP 404.
\<close>

theorem get_status_fields:
  "(\<forall>r. get_approval approvals tid = Some r \<longrightarrow>
      (\<exists>body. get_status approvals tid = JSONResponse (PDict body)
         \<and> map fst body =
             [''ticket_id'', ''claim_id'', ''status'', ''request_type'', ''created_at'',
              ''updated_at'']
         \<and> dict_item body ''ticket_id'' = Inr (PStr (ticket_id r))
         \<and> dict_item body ''claim_id'' = Inr (PStr (claim_id r))
         \<and> dict_item body ''status'' = Inr (PStr (status r))
         \<and> dict_item body ''request_type'' = Inr (PStr (request_type r))
         \<and> dict_item body ''created_at'' = Inr (PStr (created_at r))
         \<and> dict_item body ''updated_at'' = Inr (PStr (updated_at r))))
   \<and> (get_approval approvals tid = None \<longrightarrow>
        get_status approvals tid = HTTPException 404 (PStr (''Ticket '' @ tid @ '' not found'')))"
  by (simp add: get_status_def dict_item_def)

theorem get_status_fields_witness:
  "get_approval store_T1_T2 ''T1'' = Some ticket_T1_approved
   \<and> (\<exists>body. get_status store_T1_T2 ''T1'' = JSONResponse (PDict body)
         \<and> map fst body =
             [''ticket_id'', ''claim_id'', ''status'', ''request_type'', ''created_at'',
              ''updated_at'']
         \<and> dict_item body ''ticket_id'' = Inr (PStr ''T1'')
         \<and> dict_item body ''claim_id'' = Inr (PStr ''C1'')
         \<and> dict_item body ''status'' = Inr (PStr ''approved'')
         \<and> dict_item body ''request_type'' = Inr (PStr ''claim_verification'')
         \<and> dict_item body ''created_at'' = Inr (PStr ''09:00'')
         \<and> dict_item body ''updated_at'' = Inr (PStr ''09:05''))
   \<and> get_approval store_T1_T2 ''T9'' = None
   \<and> get_status store_T1_T2 ''T9'' = HTTPException 404 (PStr ''Ticket T9 not found'')"
proof -
  have r: "get_approval store_T1_T2 ''T1'' = Some ticket_T1_approved"
    by (simp add: store_T1_T2_def get_approval_def)
  have n: "get_approval store_T1_T2 ''T9'' = None"
    by (simp add: store_T1_T2_def get_approval_def)
  have known: "\<exists>body. get_status store_T1_T2 ''T1'' = JSONResponse (PDict body)
         \<and> map fst body =
             [''ticket_id'', ''claim_id'', ''status'', ''request_type'', ''created_at'',
              ''updated_at'']
         \<and> dict_item body ''ticket_id'' = Inr (PStr (ticket_id ticket_T1_approved))
         \<and> dict_item body ''claim_id'' = Inr (PStr (claim_id ticket_T1_approved))
         \<and> dict_item body ''status'' = Inr (PStr (status ticket_T1_approved))
         \<and> dict_item body ''request_type'' = Inr (PStr (request_type ticket_T1_approved))
         \<and> dict_item body ''created_at'' = Inr (PStr (created_at ticket_T1_approved))
         \<and> dict_item body ''updated_at'' = Inr (PStr (updated_at ticket_T1_approved))"
    using get_status_fields [of store_T1_T2 "''T1''", THEN conjunct1, THEN spec, THEN mp, OF r] .
  have unknown: "get_status store_T1_T2 ''T9'' = HTTPException 404 (PStr ''Ticket T9 not found'')"
    using get_status_fields [of store_T1_T2 "''T9''", THEN conjunct2, THEN mp, OF n] by simp
  from known have known': "\<exists>body. get_status store_T1_T2 ''T1'' = JSONResponse (PDict body)
         \<and> map fst body =
             [''ticket_id'', ''claim_id'', ''status'', ''request_type'', ''created_at'',
              ''updated_at'']
         \<and> dict_item body ''ticket_id'' = Inr (PStr ''T1'')
         \<and> dict_item body ''claim_id'' = Inr (PStr ''C1'')
         \<and> dict_item body ''status'' = Inr (PStr ''approved'')
         \<and> dict_item body ''request_type'' = Inr (PStr ''claim_verification'')
         \<and> dict_item body ''created_at'' = Inr (PStr ''09:00'')
         \<and> dict_item body ''updated_at'' = Inr (PStr ''09:05'')"
    by (simp add: ticket_T1_approved_def)
  show ?thesis using r n known' unknown by (intro conjI)
qed

section \<open>The list of pending tickets\<close>

text \<open>
  C9. On a well-formed store \<^verbatim>\<open>GET /api/pending\<close> answers with \<^verbatim>\<open>count\<close>, the number of
  ticket IDs whose record is pending, and with one entry per pending record, made of exactly
  its \<^verbatim>\<open>ticket_id\<close>, \<^verbatim>\<open>claim_id\<close>, \<^verbatim>\<open>user_email\<close>, \<^verbatim>\<open>request_type\<close> and
  \<^verbatim>\<open>created_at\<close>. The listed records are exactly the stored records with status
  \<^verbatim>\<open>pending\<close>, each listed once, and the ID of a ticket in a terminal state is never among
  them.
\<close>

theorem pending_listing:
  assumes "wf_store approvals"
  shows "\<exists>pending.
           get_pending_approvals approvals =
             JSONResponse
               (PDict
                  [(''count'', PInt (int (length pending))),
                   (''pending_approvals'',
                      PList
                        (map (\<lambda>req.
                                PDict
                                  [(''ticket_id'', PStr (ticket_id req)),
                                   (''claim_id'', PStr (claim_id req)),
                                   (''user_email'', PStr (user_email req)),
                                   (''request_type'', PStr (request_type req)),
                                   (''created_at'', PStr (created_at req))])
                           pending))])
         \<and> length pending =
             card {tid. \<exists>r. get_approval approvals tid = Some r \<and> status r = ''pending''}
         \<and> set pending =
             {r. \<exists>tid. get_approval approvals tid = Some r \<and> status r = ''pending''}
         \<and> distinct (map ticket_id pending)
         \<and> (\<forall>tid r. get_approval approvals tid = Some r \<and> status r \<noteq> ''pending''
                \<longrightarrow> tid \<notin> ticket_id ` set pending)"
proof (intro exI [of _ "get_all_pending approvals"] conjI allI impI)
  have d: "distinct (map fst approvals)" using assms by (simp add: wf_store_def)
  show "get_pending_approvals approvals =
             JSONResponse
               (PDict
                  [(''count'', PInt (int (length (get_all_pending approvals)))),
                   (''pending_approvals'',
                      PList
                        (map (\<lambda>req.
                                PDict
                                  [(''ticket_id'', PStr (ticket_id req)),
                                   (''claim_id'', PStr (claim_id req)),
                                   (''user_email'', PStr (user_email req)),
                                   (''request_type'', PStr (request_type req)),
                                   (''created_at'', PStr (created_at req))])
                           (get_all_pending approvals)))])"
    by (simp add: get_pending_approvals_def Let_def pending_entry_def [abs_def])
  show "length (get_all_pending approvals) =
          card {tid. \<exists>r. get_approval approvals tid = Some r \<and> status r = ''pending''}"
    using pending_card [OF d, of "\<lambda>r. status r = ''pending''"]
    by (simp add: get_all_pending_def get_approval_def)
  show set_eq: "set (get_all_pending approvals) =
          {r. \<exists>tid. get_approval approvals tid = Some r \<and> status r = ''pending''}"
    using pending_set [OF d, of "\<lambda>r. status r = ''pending''"]
    by (simp add: get_all_pending_def get_approval_def)
  have keys: "map ticket_id (map snd approvals) = map fst approvals"
    using assms by (induction approvals) (auto simp: wf_store_def)
  have "distinct (map ticket_id (map snd approvals))" using d by (simp only: keys)
  then show "distinct (map ticket_id (get_all_pending approvals))"
    unfolding get_all_pending_def by (rule distinct_map_filter)
  fix tid r
  assume a: "get_approval approvals tid = Some r \<and> status r \<noteq> ''pending''"
  show "tid \<notin> ticket_id ` set (get_all_pending approvals)"
  proof
    assume "tid \<in> ticket_id ` set (get_all_pending approvals)"
    then obtain r' where r': "r' \<in> set (get_all_pending approvals)" "ticket_id r' = tid" by auto
    from wf_store_stored [OF assms r'(1)] r'(2) a have "r' = r" by simp
    moreover have "status r' = ''pending''" using r'(1) by (simp add: get_all_pending_def)
    ultimately show False using a by simp
  qed
qed

theorem pending_listing_witness:
  "wf_store store_T1_T2
   \<and> get_pending_approvals store_T1_T2 =
       JSONResponse
         (PDict
            [(''count'', PInt 1),
             (''pending_approvals'',
                PList
                  [PDict
                     [(''ticket_id'', PStr ''T2''),
                      (''claim_id'', PStr ''C2''),
                      (''user_email'', PStr ''b@example.com''),
                      (''request_type'', PStr ''claim_verification''),
                      (''created_at'', PStr ''09:10'')]])])
   \<and> card {tid. \<exists>r. get_approval store_T1_T2 tid = Some r \<and> status r = ''pending''} = 1"
proof -
  have wf: "wf_store store_T1_T2"
    by (simp add: wf_store_def store_T1_T2_def ticket_T1_approved_def ticket_T2_def)
  have resp: "get_pending_approvals store_T1_T2 =
       JSONResponse
         (PDict
            [(''count'', PInt 1),
             (''pending_approvals'',
                PList
                  [PDict
                     [(''ticket_id'', PStr ''T2''),
                      (''claim_id'', PStr ''C2''),
                      (''user_email'', PStr ''b@example.com''),
                      (''request_type'', PStr ''claim_verification''),
                      (''created_at'', PStr ''09:10'')]])])"
    by (simp add: get_pending_approvals_def get_all_pending_def pending_entry_def
          store_T1_T2_def ticket_T1_approved_def ticket_T2_def)
  from pending_listing [OF wf] obtain pending where
    every: "get_pending_approvals store_T1_T2 =
             JSONResponse
               (PDict
                  [(''count'', PInt (int (length pending))),
                   (''pending_approvals'',
                      PList
                        (map (\<lambda>req.
                                PDict
                                  [(''ticket_id'', PStr (ticket_id req)),
                                   (''claim_id'', PStr (claim_id req)),
                                   (''user_email'', PStr (user_email req)),
                                   (''request_type'', PStr (request_type req)),
                                   (''created_at'', PStr (created_at req))])
                           pending))])
         \<and> length pending =
             card {tid. \<exists>r. get_approval store_T1_T2 tid = Some r \<and> status r = ''pending''}
         \<and> set pending =
             {r. \<exists>tid. get_approval store_T1_T2 tid = Some r \<and> status r = ''pending''}
         \<and> distinct (map ticket_id pending)
         \<and> (\<forall>tid r. get_approval store_T1_T2 tid = Some r \<and> status r \<noteq> ''pending''
                \<longrightarrow> tid \<notin> ticket_id ` set pending)" ..
  note p = every [THEN conjunct1]
  note c = every [THEN conjunct2, THEN conjunct1]
  from p resp have "int (length pending) = 1" by simp
  with c have "card {tid. \<exists>r. get_approval store_T1_T2 tid = Some r \<and> status r = ''pending''} = 1"
    by simp
  with wf resp show ?thesis by simp
qed

section \<open>Requests on a ticket that is already terminal\<close>

text \<open>
  C1, as stated, fails: the ticket \<^verbatim>\<open>T1\<close> is already approved, the manager refuses the
  second transition with an error result, and both handlers raise \<^verbatim>\<open>HTTPException(404)\<close>
  with the manager's message (lines 138 to 139 and 220 to 221); the caller is shown no
  confirmation page.
\<close>

theorem repeated_request_gets_error:
  "get_approval store_T1_approved ''T1'' = Some ticket_T1_approved
   \<and> status ticket_T1_approved = ''approved''
   \<and> fst (approve store_T1_approved ''T1'' ''Approved via email link'' ''09:20'') =
       already_terminal_error ''T1'' ''approved''
   \<and> fst (approve_request None runtime_ok ''09:20'' store_T1_approved ''T1'') =
       HTTPException 404 (PStr ''Ticket T1 is already approved'')
   \<and> \<not> is_confirmation (fst (approve_request None runtime_ok ''09:20'' store_T1_approved ''T1''))
   \<and> fst (reject_request None runtime_ok ''09:20'' store_T1_approved ''T1'') =
       HTTPException 404 (PStr ''Ticket T1 is already approved'')
   \<and> \<not> is_confirmation (fst (reject_request None runtime_ok ''09:20'' store_T1_approved ''T1''))"
proof -
  have r: "get_approval store_T1_approved ''T1'' = Some ticket_T1_approved"
    by (simp add: store_T1_approved_def get_approval_def)
  have st: "status ticket_T1_approved = ''approved''"
    by (simp add: ticket_T1_approved_def)
  have np: "status ticket_T1_approved \<noteq> ''pending''"
    by (simp add: st)
  show ?thesis
    using r st
    by (simp add: approve_request_terminal [OF r np] reject_request_terminal [OF r np]
          approve_terminal [OF r np])
qed

text \<open>
  C1, amended. For an approve or reject request on a ticket of the store that has left
  \<^verbatim>\<open>pending\<close>, the handler answers HTTP 404 with the manager's message that the ticket
  is already in its terminal status; the store is returned unchanged and no event happens,
  so no resumption call is made.
\<close>

theorem terminal_request_refused:
  assumes "get_approval approvals tid = Some r" and "status r \<noteq> ''pending''"
  shows "approve_request adk_env net now approvals tid =
           (HTTPException 404 (PStr (''Ticket '' @ tid @ '' is already '' @ status r)),
            approvals, [])
       \<and> reject_request adk_env net now approvals tid =
           (HTTPException 404 (PStr (''Ticket '' @ tid @ '' is already '' @ status r)),
            approvals, [])"
  using approve_request_terminal [OF assms] reject_request_terminal [OF assms] by simp

theorem terminal_request_refused_witness:
  "get_approval store_T1_approved ''T1'' = Some ticket_T1_approved
   \<and> status ticket_T1_approved \<noteq> ''pending''
   \<and> approve_request None runtime_ok ''09:20'' store_T1_approved ''T1'' =
       (HTTPException 404 (PStr ''Ticket T1 is already approved''), store_T1_approved, [])
   \<and> reject_request None runtime_ok ''09:20'' store_T1_approved ''T1'' =
       (HTTPException 404 (PStr ''Ticket T1 is already approved''), store_T1_approved, [])"
proof -
  have r: "get_approval store_T1_approved ''T1'' = Some ticket_T1_approved"
    by (simp add: store_T1_approved_def get_approval_def)
  have np: "status ticket_T1_approved \<noteq> ''pending''"
    by (simp add: ticket_T1_approved_def)
  have st: "status ticket_T1_approved = ''approved''"
    by (simp add: ticket_T1_approved_def)
  show ?thesis
    using r np terminal_request_refused [OF r np, of None runtime_ok "''09:20''"]
    by (simp add: st)
qed

section \<open>Delivery failures\<close>

text \<open>
  C5. Take an approve or reject request on a pending ticket whose resumption call was sent
  and did not come back with status 200 (another status code, or an exception). Then the
  answer is still the confirmation page, the store holds the ticket with its new status, the
  POST was sent once, and the last thing that happened is the printed failure line.
\<close>

theorem delivery_failure_keeps_transition:
  assumes "get_approval approvals tid = Some r" and "status r = ''pending''"
  shows "(Post url payload \<in> set (snd (snd (approve_request adk_env net now approvals tid)))
          \<and> (\<forall>txt. net url payload \<noteq> Response 200 txt)
          \<longrightarrow> fst (approve_request adk_env net now approvals tid) =
                HTMLResponse
                  \<lparr>page_title = ''Claim Approved'',
                   page_heading = ''Claim Approved Successfully'',
                   page_ticket_id = tid, page_claim_id = PStr (claim_id r),
                   page_status = ''Approved''\<rparr>
              \<and> get_approval (fst (snd (approve_request adk_env net now approvals tid))) tid =
                  Some (r\<lparr>status := ''approved'', updated_at := now,
                          approver_notes := Some ''Approved via email link''\<rparr>)
              \<and> filter is_post (snd (snd (approve_request adk_env net now approvals tid))) =
                  [Post url payload]
              \<and> last (snd (snd (approve_request adk_env net now approvals tid))) =
                  (case net url payload of
                     Raises e \<Rightarrow> Print (ErrorPushing e)
                   | Response code txt \<Rightarrow> Print (FailedToResume code txt)))
       \<and> (Post url payload \<in> set (snd (snd (reject_request adk_env net now approvals tid)))
          \<and> (\<forall>txt. net url payload \<noteq> Response 200 txt)
          \<longrightarrow> fst (reject_request adk_env net now approvals tid) =
                HTMLResponse
                  \<lparr>page_title = ''Claim Rejected'',
                   page_heading = ''Claim Submission Rejected'',
                   page_ticket_id = tid, page_claim_id = PStr (claim_id r),
                   page_status = ''Rejected''\<rparr>
              \<and> get_approval (fst (snd (reject_request adk_env net now approvals tid))) tid =
                  Some (r\<lparr>status := ''rejected'', updated_at := now,
                          rejection_reason := Some ''Rejected via email link''\<rparr>)
              \<and> filter is_post (snd (snd (reject_request adk_env net now approvals tid))) =
                  [Post url payload]
              \<and> last (snd (snd (reject_request adk_env net now approvals tid))) =
                  (case net url payload of
                     Raises e \<Rightarrow> Print (ErrorPushing e)
                   | Response code txt \<Rightarrow> Print (FailedToResume code txt)))"
proof (intro conjI impI)
  assume a: "Post url payload \<in> set (snd (snd (approve_request adk_env net now approvals tid)))
             \<and> (\<forall>txt. net url payload \<noteq> Response 200 txt)"
  then have p: "Post url payload \<in> set (snd (push_response_to_adk adk_env net (asdict r) ''approved''))"
    by (simp add: approve_request_pending [OF assms])
  show "fst (approve_request adk_env net now approvals tid) =
                HTMLResponse
                  \<lparr>page_title = ''Claim Approved'',
                   page_heading = ''Claim Approved Successfully'',
                   page_ticket_id = tid, page_claim_id = PStr (claim_id r),
                   page_status = ''Approved''\<rparr>"
    by (simp add: approve_request_pending [OF assms])
  show "get_approval (fst (snd (approve_request adk_env net now approvals tid))) tid =
                  Some (r\<lparr>status := ''approved'', updated_at := now,
                          approver_notes := Some ''Approved via email link''\<rparr>)"
    by (simp add: approve_request_pending [OF assms] get_approval_update)
  show "filter is_post (snd (snd (approve_request adk_env net now approvals tid))) =
                  [Post url payload]"
    using push_last_event [OF p] by (simp add: approve_request_pending [OF assms])
  show "last (snd (snd (approve_request adk_env net now approvals tid))) =
                  (case net url payload of
                     Raises e \<Rightarrow> Print (ErrorPushing e)
                   | Response code txt \<Rightarrow> Print (FailedToResume code txt))"
    using push_last_event [OF p] a
    by (auto simp: approve_request_pending [OF assms] split: net_outcome.splits)
next
  assume a: "Post url payload \<in> set (snd (snd (reject_request adk_env net now approvals tid)))
             \<and> (\<forall>txt. net url payload \<noteq> Response 200 txt)"
  then have p: "Post url payload \<in> set (snd (push_response_to_adk adk_env net (asdict r) ''rejected''))"
    by (simp add: reject_request_pending [OF assms])
  show "fst (reject_request adk_env net now approvals tid) =
                HTMLResponse
                  \<lparr>page_title = ''Claim Rejected'',
                   page_heading = ''Claim Submission Rejected'',
                   page_ticket_id = tid, page_claim_id = PStr (claim_id r),
                   page_status = ''Rejected''\<rparr>"
    by (simp add: reject_request_pending [OF assms])
  show "get_approval (fst (snd (reject_request adk_env net now approvals tid))) tid =
                  Some (r\<lparr>status := ''rejected'', updated_at := now,
                          rejection_reason := Some ''Rejected via email link''\<rparr>)"
    by (simp add: reject_request_pending [OF assms] get_approval_update)
  show "filter is_post (snd (snd (reject_request adk_env net now approvals tid))) =
                  [Post url payload]"
    using push_last_event [OF p] by (simp add: reject_request_pending [OF assms])
  show "last (snd (snd (reject_request adk_env net now approvals tid))) =
                  (case net url payload of
                     Raises e \<Rightarrow> Print (ErrorPushing e)
                   | Response code txt \<Rightarrow> Print (FailedToResume code txt))"
    using push_last_event [OF p] a
    by (auto simp: reject_request_pending [OF assms] split: net_outcome.splits)
qed

theorem delivery_failure_keeps_transition_witness:
  "get_approval store_T1 ''T1'' = Some ticket_T1 \<and> status ticket_T1 = ''pending''
   \<and> Post ''http://localhost:8000/run'' (sample_payload ''approved'')
        \<in> set (snd (snd (approve_request None runtime_busy ''09:05'' store_T1 ''T1'')))
   \<and> fst (approve_request None runtime_busy ''09:05'' store_T1 ''T1'') =
        HTMLResponse
          \<lparr>page_title = ''Claim Approved'', page_heading = ''Claim Approved Successfully'',
           page_ticket_id = ''T1'', page_claim_id = PStr ''C1'', page_status = ''Approved''\<rparr>
   \<and> get_approval (fst (snd (approve_request None runtime_busy ''09:05'' store_T1 ''T1''))) ''T1'' =
        Some ticket_T1_approved
   \<and> last (snd (snd (approve_request None runtime_busy ''09:05'' store_T1 ''T1''))) =
        Print (FailedToResume 503 ''busy'')
   \<and> Post ''http://localhost:8000/run'' (sample_payload ''rejected'')
        \<in> set (snd (snd (reject_request None runtime_down ''09:05'' store_T1 ''T1'')))
   \<and> fst (reject_request None runtime_down ''09:05'' store_T1 ''T1'') =
        HTMLResponse
          \<lparr>page_title = ''Claim Rejected'', page_heading = ''Claim Submission Rejected'',
           page_ticket_id = ''T1'', page_claim_id = PStr ''C1'', page_status = ''Rejected''\<rparr>
   \<and> last (snd (snd (reject_request None runtime_down ''09:05'' store_T1 ''T1''))) =
        Print (ErrorPushing (RequestError ''connection refused''))"
proof -
  have r: "get_approval store_T1 ''T1'' = Some ticket_T1"
    by (simp add: store_T1_def get_approval_def)
  have p: "status ticket_T1 = ''pending''"
    by (simp add: ticket_T1_def)
  have sent_a: "Post ''http://localhost:8000/run'' (sample_payload ''approved'')
        \<in> set (snd (snd (approve_request None runtime_busy ''09:05'' store_T1 ''T1'')))"
    by (simp add: approve_request_pending [OF r p] sample_push_trace)
  have sent_r: "Post ''http://localhost:8000/run'' (sample_payload ''rejected'')
        \<in> set (snd (snd (reject_request None runtime_down ''09:05'' store_T1 ''T1'')))"
    by (simp add: reject_request_pending [OF r p] sample_push_trace)
  have busy: "\<forall>txt. runtime_busy ''http://localhost:8000/run'' (sample_payload ''approved'')
                \<noteq> Response 200 txt"
    by (simp add: runtime_busy_def)
  have down: "\<forall>txt. runtime_down ''http://localhost:8000/run'' (sample_payload ''rejected'')
                \<noteq> Response 200 txt"
    by (simp add: runtime_down_def)
  have upd: "ticket_T1\<lparr>status := ''approved'', updated_at := ''09:05'',
                approver_notes := Some ''Approved via email link''\<rparr> = ticket_T1_approved"
    by (simp add: ticket_T1_def ticket_T1_approved_def)
  have cl: "claim_id ticket_T1 = ''C1''" by (simp add: ticket_T1_def)
  note a = delivery_failure_keeps_transition [OF r p, of "''http://localhost:8000/run''"
             "sample_payload ''approved''" None runtime_busy "''09:05''", THEN conjunct1, THEN mp,
             OF conjI [OF sent_a busy]]
  note b = delivery_failure_keeps_transition [OF r p, of "''http://localhost:8000/run''"
             "sample_payload ''rejected''" None runtime_down "''09:05''", THEN conjunct2, THEN mp,
             OF conjI [OF sent_r down]]
  show ?thesis
    using r p sent_a sent_r a b
    by (simp add: upd cl runtime_busy_def runtime_down_def)
qed

section \<open>Missing correlation data\<close>

text \<open>
  C6. Take an approve or reject request on a pending ticket whose record has no
  \<^verbatim>\<open>function_call_id\<close> (none, or the empty string) or no \<^verbatim>\<open>session_info\<close> in its
  metadata (none, or an empty one). Then the only event is the printed warning, so no POST
  is sent; the answer is the confirmation page and the store holds the ticket with its new
  status.
\<close>

theorem missing_correlation_skips_push:
  assumes "get_approval approvals tid = Some r" and "status r = ''pending''"
    and "function_call_id r = None \<or> function_call_id r = Some []
         \<or> map_of (metadata r) ''session_info'' = None
         \<or> (\<exists>v. map_of (metadata r) ''session_info'' = Some v \<and> \<not> truthy v)"
  shows "approve_request adk_env net now approvals tid =
           (HTMLResponse
              \<lparr>page_title = ''Claim Approved'', page_heading = ''Claim Approved Successfully'',
               page_ticket_id = tid, page_claim_id = PStr (claim_id r),
               page_status = ''Approved''\<rparr>,
            AList.update tid
              (r\<lparr>status := ''approved'', updated_at := now,
                 approver_notes := Some ''Approved via email link''\<rparr>) approvals,
            [Print MissingSessionInfo])
       \<and> reject_request adk_env net now approvals tid =
           (HTMLResponse
              \<lparr>page_title = ''Claim Rejected'', page_heading = ''Claim Submission Rejected'',
               page_ticket_id = tid, page_claim_id = PStr (claim_id r),
               page_status = ''Rejected''\<rparr>,
            AList.update tid
              (r\<lparr>status := ''rejected'', updated_at := now,
                 rejection_reason := Some ''Rejected via email link''\<rparr>) approvals,
            [Print MissingSessionInfo])"
proof -
  have "\<not> truthy (opt_str (function_call_id r))
        \<or> \<not> truthy (dict_get (metadata r) ''session_info'' (PDict []))"
    using assms(3) by (auto simp: dict_get_def)
  then have "\<And>st. push_response_to_adk adk_env net (asdict r) st =
                  (Inr False, [Print MissingSessionInfo])"
    by (rule push_asdict_missing)
  then show ?thesis
    by (simp add: approve_request_pending [OF assms(1,2)] reject_request_pending [OF assms(1,2)])
qed

theorem missing_correlation_skips_push_witness:
  "get_approval store_T1_T2 ''T2'' = Some ticket_T2 \<and> status ticket_T2 = ''pending''
   \<and> function_call_id ticket_T2 = None
   \<and> approve_request None runtime_ok ''09:20'' store_T1_T2 ''T2'' =
       (HTMLResponse
          \<lparr>page_title = ''Claim Approved'', page_heading = ''Claim Approved Successfully'',
           page_ticket_id = ''T2'', page_claim_id = PStr ''C2'', page_status = ''Approved''\<rparr>,
        [(''T1'', ticket_T1_approved),
         (''T2'', ticket_T2\<lparr>status := ''approved'', updated_at := ''09:20'',
                    approver_notes := Some ''Approved via email link''\<rparr>)],
        [Print MissingSessionInfo])
   \<and> reject_request None runtime_ok ''09:20'' store_T1_T2 ''T2'' =
       (HTMLResponse
          \<lparr>page_title = ''Claim Rejected'', page_heading = ''Claim Submission Rejected'',
           page_ticket_id = ''T2'', page_claim_id = PStr ''C2'', page_status = ''Rejected''\<rparr>,
        [(''T1'', ticket_T1_approved),
         (''T2'', ticket_T2\<lparr>status := ''rejected'', updated_at := ''09:20'',
                    rejection_reason := Some ''Rejected via email link''\<rparr>)],
        [Print MissingSessionInfo])"
proof -
  have r: "get_approval store_T1_T2 ''T2'' = Some ticket_T2"
    by (simp add: store_T1_T2_def get_approval_def)
  have p: "status ticket_T2 = ''pending''"
    by (simp add: ticket_T2_def)
  have f: "function_call_id ticket_T2 = None"
    by (simp add: ticket_T2_def)
  have c: "claim_id ticket_T2 = ''C2''"
    by (simp add: ticket_T2_def)
  have u: "\<And>v. AList.update ''T2'' v store_T1_T2 = [(''T1'', ticket_T1_approved), (''T2'', v)]"
    by (simp add: store_T1_T2_def)
  show ?thesis
    using r p f missing_correlation_skips_push [OF r p disjI1 [OF f], of None runtime_ok "''09:20''"]
    by (simp add: c u)
qed

section \<open>The shape of the resumption call\<close>

text \<open>
  C7. Every POST that an approve or reject request on a stored ticket sends goes to
  \<^verbatim>\<open>{ADK_API_URL}/run\<close>, and its body is the body that the spec describes:
  \<^verbatim>\<open>app_name\<close>, \<^verbatim>\<open>user_id\<close> and \<^verbatim>\<open>session_id\<close> read from the ticket's
  \<^verbatim>\<open>session_info\<close>, and one \<^verbatim>\<open>function_response\<close> part of role \<^verbatim>\<open>function\<close> with the
  name \<^verbatim>\<open>request_claim_approval\<close>, the ticket's \<^verbatim>\<open>function_call_id\<close> as \<^verbatim>\<open>id\<close>, and the
  outcome as \<^verbatim>\<open>response\<close>.
\<close>

theorem resumption_request_shape:
  assumes "get_approval approvals tid = Some r"
  shows "(Post url payload \<in> set (snd (snd (approve_request adk_env net now approvals tid))) \<longrightarrow>
            url = adk_api_url adk_env @ ''/run''
            \<and> (\<exists>si fcid.
                  map_of (metadata r) ''session_info'' = Some (PDict si)
                  \<and> function_call_id r = Some fcid
                  \<and> payload =
                      spec_run_payload (dict_get si ''app_name'' PNone)
                        (dict_get si ''user_id'' PNone) (dict_get si ''session_id'' PNone)
                        (PStr ''request_claim_approval'') (PStr fcid)
                        (PDict
                           [(''status'', PStr ''success''),
                            (''approval_status'', PStr ''approved''),
                            (''ticket_id'', PStr (ticket_id r)),
                            (''claim_id'', PStr (claim_id r)),
                            (''message'', PStr ''Claim verification approved by user'')])))
       \<and> (Post url payload \<in> set (snd (snd (reject_request adk_env net now approvals tid))) \<longrightarrow>
            url = adk_api_url adk_env @ ''/run''
            \<and> (\<exists>si fcid.
                  map_of (metadata r) ''session_info'' = Some (PDict si)
                  \<and> function_call_id r = Some fcid
                  \<and> payload =
                      spec_run_payload (dict_get si ''app_name'' PNone)
                        (dict_get si ''user_id'' PNone) (dict_get si ''session_id'' PNone)
                        (PStr ''request_claim_approval'') (PStr fcid)
                        (PDict
                           [(''status'', PStr ''success''),
                            (''approval_status'', PStr ''rejected''),
                            (''ticket_id'', PStr (ticket_id r)),
                            (''claim_id'', PStr (claim_id r)),
                            (''message'', PStr ''Claim verification rejected by user'')])))"
proof (intro conjI impI)
  assume "Post url payload \<in> set (snd (snd (approve_request adk_env net now approvals tid)))"
  then have "Post url payload \<in> set (snd (push_response_to_adk adk_env net (asdict r) ''approved''))"
    by (simp add: approve_request_trace [OF assms] split: if_splits)
  from push_asdict_shape [OF this]
  show "url = adk_api_url adk_env @ ''/run''"
    and "\<exists>si fcid.
                  map_of (metadata r) ''session_info'' = Some (PDict si)
                  \<and> function_call_id r = Some fcid
                  \<and> payload =
                      spec_run_payload (dict_get si ''app_name'' PNone)
                        (dict_get si ''user_id'' PNone) (dict_get si ''session_id'' PNone)
                        (PStr ''request_claim_approval'') (PStr fcid)
                        (PDict
                           [(''status'', PStr ''success''),
                            (''approval_status'', PStr ''approved''),
                            (''ticket_id'', PStr (ticket_id r)),
                            (''claim_id'', PStr (claim_id r)),
                            (''message'', PStr ''Claim verification approved by user'')])"
    by simp_all
next
  assume "Post url payload \<in> set (snd (snd (reject_request adk_env net now approvals tid)))"
  then have "Post url payload \<in> set (snd (push_response_to_adk adk_env net (asdict r) ''rejected''))"
    by (simp add: reject_request_trace [OF assms] split: if_splits)
  from push_asdict_shape [OF this]
  show "url = adk_api_url adk_env @ ''/run''"
    and "\<exists>si fcid.
                  map_of (metadata r) ''session_info'' = Some (PDict si)
                  \<and> function_call_id r = Some fcid
                  \<and> payload =
                      spec_run_payload (dict_get si ''app_name'' PNone)
                        (dict_get si ''user_id'' PNone) (dict_get si ''session_id'' PNone)
                        (PStr ''request_claim_approval'') (PStr fcid)
                        (PDict
                           [(''status'', PStr ''success''),
                            (''approval_status'', PStr ''rejected''),
                            (''ticket_id'', PStr (ticket_id r)),
                            (''claim_id'', PStr (claim_id r)),
                            (''message'', PStr ''Claim verification rejected by user'')])"
    by simp_all
qed

theorem resumption_request_shape_witness:
  "get_approval store_T1 ''T1'' = Some ticket_T1
   \<and> Post ''http://localhost:8000/run'' (sample_payload ''approved'')
        \<in> set (snd (snd (approve_request None runtime_ok ''09:05'' store_T1 ''T1'')))
   \<and> Post ''http://localhost:8000/run'' (sample_payload ''rejected'')
        \<in> set (snd (snd (reject_request None runtime_ok ''09:05'' store_T1 ''T1'')))
   \<and> ''http://localhost:8000/run'' = adk_api_url None @ ''/run''
   \<and> (\<exists>si fcid.
         map_of (metadata ticket_T1) ''session_info'' = Some (PDict si)
         \<and> function_call_id ticket_T1 = Some fcid
         \<and> sample_payload ''approved'' =
             spec_run_payload (dict_get si ''app_name'' PNone)
               (dict_get si ''user_id'' PNone) (dict_get si ''session_id'' PNone)
               (PStr ''request_claim_approval'') (PStr fcid)
               (PDict
                  [(''status'', PStr ''success''),
                   (''approval_status'', PStr ''approved''),
                   (''ticket_id'', PStr (ticket_id ticket_T1)),
                   (''claim_id'', PStr (claim_id ticket_T1)),
                   (''message'', PStr ''Claim verification approved by user'')]))
   \<and> (\<exists>si fcid.
         map_of (metadata ticket_T1) ''session_info'' = Some (PDict si)
         \<and> function_call_id ticket_T1 = Some fcid
         \<and> sample_payload ''rejected'' =
             spec_run_payload (dict_get si ''app_name'' PNone)
               (dict_get si ''user_id'' PNone) (dict_get si ''session_id'' PNone)
               (PStr ''request_claim_approval'') (PStr fcid)
               (PDict
                  [(''status'', PStr ''success''),
                   (''approval_status'', PStr ''rejected''),
                   (''ticket_id'', PStr (ticket_id ticket_T1)),
                   (''claim_id'', PStr (claim_id ticket_T1)),
                   (''message'', PStr ''Claim verification rejected by user'')]))"
proof -
  have r: "get_approval store_T1 ''T1'' = Some ticket_T1"
    by (simp add: store_T1_def get_approval_def)
  have p: "status ticket_T1 = ''pending''"
    by (simp add: ticket_T1_def)
  have sent_a: "Post ''http://localhost:8000/run'' (sample_payload ''approved'')
        \<in> set (snd (snd (approve_request None runtime_ok ''09:05'' store_T1 ''T1'')))"
    by (simp add: approve_request_pending [OF r p] sample_push_trace)
  have sent_r: "Post ''http://localhost:8000/run'' (sample_payload ''rejected'')
        \<in> set (snd (snd (reject_request None runtime_ok ''09:05'' store_T1 ''T1'')))"
    by (simp add: reject_request_pending [OF r p] sample_push_trace)
  note a = resumption_request_shape [OF r, THEN conjunct1, THEN mp, OF sent_a]
  note b = resumption_request_shape [OF r, THEN conjunct2, THEN mp, OF sent_r]
  show ?thesis
    using r sent_a sent_r a [THEN conjunct1] a [THEN conjunct2] b [THEN conjunct2]
    by (intro conjI)
qed

section \<open>The resumption call fires once\<close>

text \<open>
  C2. When the manager's result is an error, the handler causes no event at all: the
  resumption call is made only after a successful transition. While the server answers any
  sequence of approve and reject requests, at most one POST is sent for a ticket; for a
  pending ticket with correlation data that is requested at least once, exactly one POST
  is sent, however often the request is repeated.
\<close>

theorem resumption_fires_once:
  "(is_error (fst (approve approvals tid ''Approved via email link'' now)) \<longrightarrow>
      snd (snd (approve_request adk_env net now approvals tid)) = [])
   \<and> (is_error (fst (reject approvals tid ''Rejected via email link'' now)) \<longrightarrow>
      snd (snd (reject_request adk_env net now approvals tid)) = [])
   \<and> length (resumption_calls tid (fst (serve adk_env net approvals rqs))) \<le> 1
   \<and> (\<forall>r. get_approval approvals tid = Some r \<and> status r = ''pending'' \<and> has_correlation r
            \<and> tid \<in> req_ticket ` fst ` set rqs \<longrightarrow>
          length (resumption_calls tid (fst (serve adk_env net approvals rqs))) = 1)"
proof (intro conjI impI allI)
  assume "is_error (fst (approve approvals tid ''Approved via email link'' now))"
  then have "\<not> pending_at approvals tid" by (rule approve_error_not_pending)
  from handle_not_pending [OF this, of "ApproveReq tid" adk_env net now]
  show "snd (snd (approve_request adk_env net now approvals tid)) = []" by simp
next
  assume "is_error (fst (reject approvals tid ''Rejected via email link'' now))"
  then have "\<not> pending_at approvals tid" by (rule reject_error_not_pending)
  from handle_not_pending [OF this, of "RejectReq tid" adk_env net now]
  show "snd (snd (reject_request adk_env net now approvals tid)) = []" by simp
next
  show "length (resumption_calls tid (fst (serve adk_env net approvals rqs))) \<le> 1"
  proof (cases "pending_at approvals tid")
    case True
    then obtain r where "get_approval approvals tid = Some r" "status r = ''pending''"
      by (auto simp: pending_at_def split: option.splits)
    from serve_pending [OF this] show ?thesis by simp
  next
    case False
    from serve_not_pending [OF this] show ?thesis by simp
  qed
next
  fix r
  assume a: "get_approval approvals tid = Some r \<and> status r = ''pending'' \<and> has_correlation r
            \<and> tid \<in> req_ticket ` fst ` set rqs"
  then have "get_approval approvals tid = Some r" "status r = ''pending''" by simp_all
  from serve_pending [OF this, of adk_env net rqs] a
  show "length (resumption_calls tid (fst (serve adk_env net approvals rqs))) = 1" by simp
qed

theorem resumption_fires_once_witness:
  "is_error (fst (approve store_T1_approved ''T1'' ''Approved via email link'' ''09:06''))
   \<and> snd (snd (approve_request None runtime_ok ''09:06'' store_T1_approved ''T1'')) = []
   \<and> is_error (fst (reject store_T1_approved ''T1'' ''Rejected via email link'' ''09:07''))
   \<and> snd (snd (reject_request None runtime_ok ''09:07'' store_T1_approved ''T1'')) = []
   \<and> get_approval store_T1 ''T1'' = Some ticket_T1 \<and> status ticket_T1 = ''pending''
   \<and> has_correlation ticket_T1
   \<and> ''T1'' \<in> req_ticket ` fst ` set sample_requests
   \<and> length (resumption_calls ''T1'' (fst (serve None runtime_ok store_T1 sample_requests))) = 1
   \<and> resumption_calls ''T1'' (fst (serve None runtime_ok store_T1 sample_requests)) =
       [Post ''http://localhost:8000/run'' (sample_payload ''approved'')]"
proof -
  have t: "get_approval store_T1_approved ''T1'' = Some ticket_T1_approved"
    by (simp add: store_T1_approved_def get_approval_def)
  have np: "status ticket_T1_approved \<noteq> ''pending''"
    by (simp add: ticket_T1_approved_def)
  have e1: "is_error (fst (approve store_T1_approved ''T1'' ''Approved via email link'' ''09:06''))"
    by (simp add: approve_terminal [OF t np])
  have e2: "is_error (fst (reject store_T1_approved ''T1'' ''Rejected via email link'' ''09:07''))"
    by (simp add: reject_terminal [OF t np])
  have r: "get_approval store_T1 ''T1'' = Some ticket_T1"
    by (simp add: store_T1_def get_approval_def)
  have p: "status ticket_T1 = ''pending''"
    by (simp add: ticket_T1_def)
  have c: "has_correlation ticket_T1"
    by (simp add: has_correlation_def ticket_T1_def sample_session_def)
  have m: "''T1'' \<in> req_ticket ` fst ` set sample_requests"
    by (simp add: sample_requests_def)
  have upd: "AList.update ''T1''
               (ticket_T1\<lparr>status := ''approved'', updated_at := ''09:05'',
                  approver_notes := Some ''Approved via email link''\<rparr>) store_T1 =
             store_T1_approved"
    by (simp add: store_T1_def store_T1_approved_def ticket_T1_def ticket_T1_approved_def)
  have run: "resumption_calls ''T1'' (fst (serve None runtime_ok store_T1 sample_requests)) =
       [Post ''http://localhost:8000/run'' (sample_payload ''approved'')]"
    by (simp add: sample_requests_def serve_Cons resumption_calls_Cons
          approve_request_pending [OF r p] upd
          approve_request_terminal [OF t np] reject_request_terminal [OF t np]
          sample_push_trace runtime_ok_def resumption_calls_def serve.simps(1)
        del: serve.simps(2))
  note a = resumption_fires_once [where approvals = store_T1_approved and tid = "''T1''"
             and now = "''09:06''" and adk_env = None and net = runtime_ok,
             THEN conjunct1, THEN mp, OF e1]
  note b = resumption_fires_once [where approvals = store_T1_approved and tid = "''T1''"
             and now = "''09:07''" and adk_env = None and net = runtime_ok,
             THEN conjunct2, THEN conjunct1, THEN mp, OF e2]
  note d = resumption_fires_once [where approvals = store_T1 and tid = "''T1''"
             and adk_env = None and net = runtime_ok and rqs = sample_requests,
             THEN conjunct2, THEN conjunct2, THEN conjunct2, THEN spec, THEN mp,
             OF conjI [OF r conjI [OF p conjI [OF c m]]]]
  show ?thesis
    using e1 a e2 b r p c m d run by (intro conjI)
qed

end
